theory Spec2Isabelle
  imports Complex_Main
begin

section \<open>Python values shared by all modules\<close>

text \<open>
  Every \<^verbatim>\<open>raise\<close> of the interpreter or of a library call is a value of \<open>error\<close>;
  a function that can raise returns \<open>error + 'a\<close> with \<open>Inl\<close> for the exception.
\<close>

datatype error =
    TypeError | AttributeError | KeyError | IndexError | ValueError
  | ZeroDivisionError | RuntimeError | FileNotFoundError

definition digit_char :: "nat \<Rightarrow> char" where
  "digit_char d = ''0123456789'' ! d"

fun str_nat :: "nat \<Rightarrow> string" where
  "str_nat n = (if n < 10 then [digit_char n] else str_nat (n div 10) @ [digit_char (n mod 10)])"

declare str_nat.simps [simp del]

definition str_int :: "int \<Rightarrow> string" where
  \<comment> \<open>\<^verbatim>\<open>str(i)\<close>, which is what an f-string field \<^verbatim>\<open>{i}\<close> inserts for an int\<close>
  "str_int i = (if i < 0 then CHR ''-'' # str_nat (nat (- i)) else str_nat (nat i))"

definition py_range :: "int \<Rightarrow> int list" where
  \<comment> \<open>\<^verbatim>\<open>list(range(n))\<close>: empty when \<open>n \<le> 0\<close>\<close>
  "py_range n = map int [0..<nat n]"

section \<open>utils/functions.py\<close>

subsection \<open>prepare_device\<close>

datatype device = Cuda0 | Cpu

definition warning_no_gpu :: string where
  "warning_no_gpu = ''Warning: No GPU available on this machine, training will be performed on CPU.''"

definition warning_too_many :: "int \<Rightarrow> nat \<Rightarrow> string" where
  "warning_too_many n_gpu_use num_gpu =
     ''Warning: The number of GPU configured to use is '' @ str_int n_gpu_use
       @ '', but only '' @ str_nat num_gpu @ '' are available''"

definition clamp_n_gpu_use :: "int \<Rightarrow> nat \<Rightarrow> int \<times> string list" where
  \<comment> \<open>the two guards of \<^verbatim>\<open>prepare_device\<close>: the value of \<^verbatim>\<open>n_gpu_use\<close> after them, and the lines printed\<close>
  "clamp_n_gpu_use n_gpu_use num_gpu =
     (let (n1, out1) = (if n_gpu_use > 0 \<and> num_gpu = 0 then (0, [warning_no_gpu]) else (n_gpu_use, []));
          (n2, out2) = (if n1 > int num_gpu then (int num_gpu, out1 @ [warning_too_many n1 num_gpu]) else (n1, out1))
      in (n2, out2))"

definition prepare_device :: "int \<Rightarrow> nat \<Rightarrow> (device \<times> int list) \<times> string list" where
  \<comment> \<open>\<open>num_gpu\<close> is what \<^verbatim>\<open>torch.cuda.device_count()\<close> returns; the second component is standard output\<close>
  "prepare_device n_gpu_use num_gpu =
     (let (n, out) = clamp_n_gpu_use n_gpu_use num_gpu;
          device = (if n > 0 then Cuda0 else Cpu);
          list_ids = py_range n
      in ((device, list_ids), out))"

record 'a tensor2 =
  t_rows :: nat
  t_cols :: nat
  t_cells :: "'a list list"

definition wf_tensor2 :: "'a tensor2 \<Rightarrow> bool" where
  "wf_tensor2 t \<longleftrightarrow> length (t_cells t) = t_rows t \<and> list_all (\<lambda>r. length r = t_cols t) (t_cells t)"

record 'a tensor3 =
  t3_d0 :: nat
  t3_d1 :: nat
  t3_d2 :: nat
  t3_cells :: "'a list list list"

definition tensor_T :: "'a tensor2 \<Rightarrow> 'a tensor2" where
  "tensor_T t =
     \<lparr>t_rows = t_cols t, t_cols = t_rows t,
      t_cells = map (\<lambda>c. map (\<lambda>r. t_cells t ! r ! c) [0..<t_rows t]) [0..<t_cols t]\<rparr>"

record sample =
  sample_data :: "int list"
  sample_labels :: "int list"

record batch =
  batch_data :: "int tensor2"
  batch_labels :: "int list"

definition pad_sequence :: "int list list \<Rightarrow> error + int tensor2" where
  "pad_sequence sequences =
     (if sequences = [] then Inl RuntimeError
      else let max_len = fold max (map length sequences) 0
           in Inr \<lparr>t_rows = max_len, t_cols = length sequences,
                   t_cells = map (\<lambda>t. map (\<lambda>s. if t < length s then s ! t else 0) sequences) [0..<max_len]\<rparr>)"

definition torch_cat :: "'a list list \<Rightarrow> error + 'a list" where
  "torch_cat tensors = (if tensors = [] then Inl RuntimeError else Inr (concat tensors))"

definition collate :: "sample list \<Rightarrow> error + batch" where
  "collate samples =
     (case pad_sequence (map sample_data samples) of
        Inl e \<Rightarrow> Inl e
      | Inr data \<Rightarrow>
          (case torch_cat (map sample_labels samples) of
             Inl e \<Rightarrow> Inl e
           | Inr labels \<Rightarrow> Inr \<lparr>batch_data = tensor_T data, batch_labels = labels\<rparr>))"

definition nonzero_eq :: "int tensor2 \<Rightarrow> int \<Rightarrow> (nat \<times> nat) list" where
  "nonzero_eq data token_id =
     filter (\<lambda>(j, k). t_cells data ! j ! k = token_id)
       (List.product [0..<t_rows data] [0..<t_cols data])"

fun copy_token_rows ::
  "real tensor3 \<Rightarrow> (nat \<times> nat) list \<Rightarrow> nat list \<Rightarrow> real list list \<Rightarrow> error + real list list" where
  "copy_token_rows logits token_indexes [] token_logits = Inr token_logits"
| "copy_token_rows logits token_indexes (i # is) token_logits =
     (case token_indexes ! i of
        (j, k) \<Rightarrow>
          if j < t3_d0 logits \<and> k < t3_d1 logits
          then copy_token_rows logits token_indexes is (token_logits[i := t3_cells logits ! j ! k])
          else Inl IndexError)"

definition get_token_logits :: "device \<Rightarrow> int tensor2 \<Rightarrow> real tensor3 \<Rightarrow> int \<Rightarrow> error + real tensor2" where
  "get_token_logits dev data logits token_id =
     (let token_indexes = nonzero_eq data token_id;
          n = length token_indexes;
          token_logits = replicate n (replicate (t3_d2 logits) 0)
      in case copy_token_rows logits token_indexes [0..<n] token_logits of
           Inl e \<Rightarrow> Inl e
         | Inr rows \<Rightarrow> Inr \<lparr>t_rows = n, t_cols = t3_d2 logits, t_cells = rows\<rparr>)"


definition scan_before :: "nat \<times> nat \<Rightarrow> nat \<times> nat \<Rightarrow> bool" where
  \<comment> \<open>row-major order on index pairs: earlier example first, then earlier position\<close>
  "scan_before p q \<longleftrightarrow> fst p < fst q \<or> (fst p = fst q \<and> snd p < snd q)"

section \<open>model/metric.py\<close>

datatype average = Micro | Macro | Weighted

datatype metric_value = MetricDict "(string \<times> real) list" | MetricTuple "real list"

datatype metric_callable =
    Callable2 "int list list \<Rightarrow> int list list \<Rightarrow> error + metric_value"
  | Callable3 "int list list \<Rightarrow> int list list \<Rightarrow> int \<Rightarrow> error + metric_value"

definition on_ok :: "error + 'a \<Rightarrow> ('a \<Rightarrow> error + 'b) \<Rightarrow> error + 'b" where
  "on_ok m f = (case m of Inl e \<Rightarrow> Inl e | Inr x \<Rightarrow> f x)"

definition torch_tensor :: "int list list \<Rightarrow> error + int list list" where
  "torch_tensor xss = (if list_all (\<lambda>xs. length xs = length (hd xss)) xss then Inr xss else Inl ValueError)"

definition multiple_f1_score ::
  "(average \<Rightarrow> int list \<Rightarrow> int list \<Rightarrow> nat \<Rightarrow> error + real)
     \<Rightarrow> int list list \<Rightarrow> int list list \<Rightarrow> error + metric_value" where
  "multiple_f1_score multiclass_f1_score output target =
     on_ok (torch_tensor output) (\<lambda>out_t.
     on_ok (torch_tensor target) (\<lambda>tgt_t.
       let logits_tensor = concat out_t; targets_tensor = concat tgt_t in
       on_ok (multiclass_f1_score Micro logits_tensor targets_tensor 339) (\<lambda>f1_micro.
       on_ok (multiclass_f1_score Macro logits_tensor targets_tensor 339) (\<lambda>f1_macro.
       on_ok (multiclass_f1_score Weighted logits_tensor targets_tensor 339) (\<lambda>f1_weighted.
         Inr (MetricTuple [f1_micro, f1_macro, f1_weighted]))))))"

definition call3 ::
  "metric_callable \<Rightarrow> int list list \<Rightarrow> int list list \<Rightarrow> int \<Rightarrow> error + metric_value" where
  "call3 f a b c = (case f of Callable3 g \<Rightarrow> g a b c | Callable2 g \<Rightarrow> Inl TypeError)"

definition metric_items :: "metric_value \<Rightarrow> error + (string \<times> real) list" where
  "metric_items v = (case v of MetricDict kvs \<Rightarrow> Inr kvs | MetricTuple xs \<Rightarrow> Inl AttributeError)"

section \<open>trainer/trainer.py\<close>

record datetime =
  dt_day :: nat
  dt_month :: nat
  dt_year :: nat
  dt_hour :: nat
  dt_minute :: nat
  dt_second :: nat

definition pad2 :: "nat \<Rightarrow> string" where
  "pad2 n = (if n < 10 then CHR ''0'' # str_nat n else str_nat n)"

definition strftime :: "datetime \<Rightarrow> string" where
  "strftime now =
     pad2 (dt_day now) @ ''-'' @ pad2 (dt_month now) @ ''-'' @ pad2 (dt_year now mod 100) @ ''_''
       @ pad2 (dt_hour now) @ ''-'' @ pad2 (dt_minute now) @ ''-'' @ pad2 (dt_second now)"

record ('m, 'o) checkpoint =
  ck_epoch :: int
  ck_model_state_dict :: 'm
  ck_optimizer_state_dict :: 'o
  ck_losses :: "real list \<times> real list"
  ck_metrics :: "(string \<rightharpoonup> real list) \<times> (string \<rightharpoonup> real list)"
  ck_best_metrics :: "string \<rightharpoonup> real"

type_synonym ('m, 'o) files = "string \<rightharpoonup> ('m, 'o) checkpoint"

record ('m, 'o) env =
  model_forward :: "bool \<Rightarrow> 'm \<Rightarrow> int tensor2 \<Rightarrow> error + real tensor3"
  loss_fn :: "real tensor2 \<Rightarrow> int list \<Rightarrow> error + real"
  optimizer_step :: "'m \<Rightarrow> 'o \<Rightarrow> int tensor2 \<Rightarrow> int list \<Rightarrow> 'm \<times> 'o"
  lr_scheduler :: "('o \<Rightarrow> 'o) option"
  metric_fn :: metric_callable
  cls_token_id :: int
  device_of :: device
  num_labels :: int
  batch_size :: int
  num_epochs :: int
  train_dataloader :: "int \<Rightarrow> batch list"
  valid_dataloader :: "int \<Rightarrow> batch list"
  clock :: "int \<Rightarrow> datetime"
  cfg_metrics :: "string list"
  save_period_in_epochs :: int
  checkpoint_dir :: string
  start_from_checkpoint :: bool
  checkpoint_name :: string

record ('m, 'o) trainer =
  model :: 'm
  optimizer :: 'o
  start_epoch :: int
  attrs :: "string \<rightharpoonup> real"
  metrics_train :: "string \<rightharpoonup> real list"
  metrics_valid :: "string \<rightharpoonup> real list"
  losses_train :: "real list"
  losses_valid :: "real list"
  logger :: "string list option"

record epoch_result =
  er_loss :: real
  er_metrics :: metric_value

fun for_each :: "('a \<Rightarrow> 's \<Rightarrow> error + 's) \<Rightarrow> 'a list \<Rightarrow> 's \<Rightarrow> error + 's" where
  "for_each body [] s = Inr s"
| "for_each body (x # xs) s = (case body x s of Inl e \<Rightarrow> Inl e | Inr s' \<Rightarrow> for_each body xs s')"

definition logger_info :: "string \<Rightarrow> ('m, 'o) trainer \<Rightarrow> error + ('m, 'o) trainer" where
  "logger_info tag t =
     (case logger t of None \<Rightarrow> Inl AttributeError | Some lg \<Rightarrow> Inr (t\<lparr>logger := Some (lg @ [tag])\<rparr>))"

definition getattr :: "('m, 'o) trainer \<Rightarrow> string \<Rightarrow> error + real" where
  "getattr t name = (case attrs t name of None \<Rightarrow> Inl AttributeError | Some v \<Rightarrow> Inr v)"

definition setattr :: "('m, 'o) trainer \<Rightarrow> string \<Rightarrow> real \<Rightarrow> ('m, 'o) trainer" where
  "setattr t name v = t\<lparr>attrs := (attrs t)(name \<mapsto> v)\<rparr>"

definition best_name :: "string \<Rightarrow> string" where
  "best_name metric = ''best_'' @ metric"

definition argmax_row :: "real list \<Rightarrow> int" where
  "argmax_row xs =
     int (fst (fold (\<lambda>(i, x) (bi, bx). if bx < x then (i, x) else (bi, bx))
                 (zip [1..<length xs] (tl xs)) (0, hd xs)))"

definition argmax1 :: "real tensor2 \<Rightarrow> error + int list" where
  "argmax1 t = (if t_cols t = 0 then Inl IndexError else Inr (map argmax_row (t_cells t)))"

definition checkpoint_path :: "string \<Rightarrow> int \<Rightarrow> bool \<Rightarrow> string option \<Rightarrow> datetime \<Rightarrow> string" where
  "checkpoint_path dir epoch save_best suffix now =
     (if save_best
      then dir @ ''model_best_'' @ (case suffix of None \<Rightarrow> ''None'' | Some sfx \<Rightarrow> sfx) @ ''.pt''
      else dir @ ''model_epoch_'' @ str_int epoch @ ''_'' @ ''datetime-'' @ strftime now @ ''.pt'')"

definition best_metrics_dict :: "('m, 'o) trainer \<Rightarrow> string list \<Rightarrow> error + (string \<rightharpoonup> real)" where
  "best_metrics_dict t names =
     for_each (\<lambda>i d. on_ok (getattr t (best_name i)) (\<lambda>v. Inr (d(best_name i \<mapsto> v)))) names Map.empty"

definition save_checkpoint ::
  "('m, 'o) env \<Rightarrow> ('m, 'o) trainer \<Rightarrow> ('m, 'o) files \<Rightarrow> int \<Rightarrow> real list \<times> real list
     \<Rightarrow> (string \<rightharpoonup> real list) \<times> (string \<rightharpoonup> real list) \<Rightarrow> bool \<Rightarrow> string option \<Rightarrow> datetime
     \<Rightarrow> error + ('m, 'o) files" where
  "save_checkpoint su t fs epoch losses metrics save_best suffix now =
     (let path = checkpoint_path (checkpoint_dir su) epoch save_best suffix now in
      on_ok (best_metrics_dict t (cfg_metrics su)) (\<lambda>best.
        Inr (fs(path \<mapsto>
               \<lparr>ck_epoch = epoch, ck_model_state_dict = model t,
                ck_optimizer_state_dict = optimizer t, ck_losses = losses,
                ck_metrics = metrics, ck_best_metrics = best\<rparr>))))"

definition load_checkpoint ::
  "('m, 'o) env \<Rightarrow> ('m, 'o) trainer \<Rightarrow> ('m, 'o) files \<Rightarrow> string \<Rightarrow> error + ('m, 'o) trainer" where
  "load_checkpoint su t fs path =
     (case fs path of
        None \<Rightarrow> Inl FileNotFoundError
      | Some checkpoint \<Rightarrow>
          on_ok (for_each
                   (\<lambda>metric_name t'.
                      case ck_best_metrics checkpoint (best_name metric_name) of
                        None \<Rightarrow> Inl KeyError
                      | Some v \<Rightarrow> Inr (setattr t' (best_name metric_name) v))
                   (cfg_metrics su)
                   (t\<lparr>start_epoch := ck_epoch checkpoint + 1,
                      model := ck_model_state_dict checkpoint,
                      optimizer := ck_optimizer_state_dict checkpoint\<rparr>))
            (\<lambda>t'. Inr (t'\<lparr>metrics_train := fst (ck_metrics checkpoint),
                            metrics_valid := snd (ck_metrics checkpoint),
                            losses_train := fst (ck_losses checkpoint),
                            losses_valid := snd (ck_losses checkpoint)\<rparr>)))"

definition init_trainer ::
  "('m, 'o) env \<Rightarrow> 'm \<Rightarrow> 'o \<Rightarrow> string list option \<Rightarrow> ('m, 'o) files \<Rightarrow> error + ('m, 'o) trainer" where
  "init_trainer su mdl opt lg fs =
     on_ok (logger_info ''TRAINER''
              \<lparr>model = mdl, optimizer = opt, start_epoch = 0, attrs = Map.empty,
               metrics_train = Map.empty, metrics_valid = Map.empty,
               losses_train = [], losses_valid = [], logger = lg\<rparr>)
       (\<lambda>t0.
          let t1 = fold (\<lambda>metric_name t. setattr t (best_name metric_name) 0) (cfg_metrics su) t0;
              t2 = t1\<lparr>metrics_train := fold (\<lambda>metric_name d. d(metric_name \<mapsto> [])) (cfg_metrics su) Map.empty,
                      metrics_valid := fold (\<lambda>metric_name d. d(metric_name \<mapsto> [])) (cfg_metrics su) Map.empty,
                      losses_train := [], losses_valid := []\<rparr>
          in if start_from_checkpoint su
             then load_checkpoint su t2 fs (checkpoint_dir su @ checkpoint_name su)
             else Inr t2)"

definition train_batch ::
  "('m, 'o) env \<Rightarrow> batch \<Rightarrow> 'm \<times> 'o \<Rightarrow> error + (real \<times> int list \<times> int list \<times> 'm \<times> 'o)" where
  "train_batch su b mo =
     on_ok (model_forward su True (fst mo) (batch_data b)) (\<lambda>logits.
     on_ok (get_token_logits (device_of su) (batch_data b) logits (cls_token_id su)) (\<lambda>cls_logits.
     on_ok (loss_fn su cls_logits (batch_labels b)) (\<lambda>loss.
     on_ok (argmax1 cls_logits) (\<lambda>pred.
       Inr (loss, pred, batch_labels b,
            optimizer_step su (fst mo) (snd mo) (batch_data b) (batch_labels b))))))"

fun train_batches ::
  "('m, 'o) env \<Rightarrow> batch list \<Rightarrow> real \<times> int list list \<times> int list list \<times> 'm \<times> 'o
     \<Rightarrow> error + (real \<times> int list list \<times> int list list \<times> 'm \<times> 'o)" where
  "train_batches su [] acc = Inr acc"
| "train_batches su (b # bs) (running_loss, logits, targets, mo) =
     (case train_batch su b mo of
        Inl e \<Rightarrow> Inl e
      | Inr (loss, pred, labels, mo') \<Rightarrow>
          train_batches su bs (running_loss + loss, logits @ [pred], targets @ [labels], mo'))"

definition train_epoch ::
  "('m, 'o) env \<Rightarrow> batch list \<Rightarrow> ('m, 'o) trainer \<Rightarrow> error + (epoch_result \<times> ('m, 'o) trainer)" where
  "train_epoch su batches t =
     on_ok (train_batches su batches (0, [], [], model t, optimizer t))
       (\<lambda>(running_loss, logits, targets, m, opt).
          let opt' = (case lr_scheduler su of None \<Rightarrow> opt | Some step \<Rightarrow> step opt) in
          if batch_size su = 0 then Inl ZeroDivisionError
          else on_ok (call3 (metric_fn su) logits targets (num_labels su)) (\<lambda>mv.
                 Inr (\<lparr>er_loss = running_loss / of_int (batch_size su), er_metrics = mv\<rparr>,
                      t\<lparr>model := m, optimizer := opt'\<rparr>)))"

definition valid_batch ::
  "('m, 'o) env \<Rightarrow> 'm \<Rightarrow> batch \<Rightarrow> error + (real \<times> int list \<times> int list)" where
  "valid_batch su m b =
     on_ok (model_forward su False m (batch_data b)) (\<lambda>probs.
     on_ok (get_token_logits (device_of su) (batch_data b) probs (cls_token_id su)) (\<lambda>cls_probs.
     on_ok (loss_fn su cls_probs (batch_labels b)) (\<lambda>loss.
     on_ok (argmax1 cls_probs) (\<lambda>pred.
       Inr (loss, pred, batch_labels b)))))"

fun valid_batches ::
  "('m, 'o) env \<Rightarrow> 'm \<Rightarrow> batch list \<Rightarrow> real \<times> int list list \<times> int list list
     \<Rightarrow> error + (real \<times> int list list \<times> int list list)" where
  "valid_batches su m [] acc = Inr acc"
| "valid_batches su m (b # bs) (running_loss, logits, targets) =
     (case valid_batch su m b of
        Inl e \<Rightarrow> Inl e
      | Inr (loss, pred, labels) \<Rightarrow>
          valid_batches su m bs (running_loss + loss, logits @ [pred], targets @ [labels]))"

definition validate_epoch ::
  "('m, 'o) env \<Rightarrow> batch list \<Rightarrow> ('m, 'o) trainer \<Rightarrow> error + epoch_result" where
  "validate_epoch su batches t =
     on_ok (valid_batches su (model t) batches (0, [], []))
       (\<lambda>(running_loss, logits, targets).
          if batch_size su = 0 then Inl ZeroDivisionError
          else on_ok (call3 (metric_fn su) logits targets (num_labels su)) (\<lambda>mv.
                 Inr \<lparr>er_loss = running_loss / of_int (batch_size su), er_metrics = mv\<rparr>))"

definition dict_append :: "(string \<rightharpoonup> real list) \<Rightarrow> string \<Rightarrow> real \<Rightarrow> error + (string \<rightharpoonup> real list)" where
  "dict_append d key v = (case d key of None \<Rightarrow> Inl KeyError | Some xs \<Rightarrow> Inr (d(key \<mapsto> xs @ [v])))"

definition train_metric_step :: "string \<times> real \<Rightarrow> ('m, 'o) trainer \<Rightarrow> error + ('m, 'o) trainer" where
  "train_metric_step kv t =
     on_ok (dict_append (metrics_train t) (fst kv) (snd kv)) (\<lambda>d.
       logger_info ''TRAIN_METRICS'' (t\<lparr>metrics_train := d\<rparr>))"

definition valid_metric_step ::
  "('m, 'o) env \<Rightarrow> int \<Rightarrow> string \<times> real \<Rightarrow> ('m, 'o) trainer \<times> ('m, 'o) files
     \<Rightarrow> error + ('m, 'o) trainer \<times> ('m, 'o) files" where
  "valid_metric_step su epoch kv w =
     on_ok (dict_append (metrics_valid (fst w)) (fst kv) (snd kv)) (\<lambda>d.
     on_ok (logger_info ''VALID_METRICS'' ((fst w)\<lparr>metrics_valid := d\<rparr>)) (\<lambda>t1.
     on_ok (getattr t1 (best_name (fst kv))) (\<lambda>best.
       if best \<le> snd kv
       then on_ok (logger_info ''BEST_METRIC'' (setattr t1 (best_name (fst kv)) (snd kv))) (\<lambda>t2.
            on_ok (save_checkpoint su t2 (snd w) epoch (losses_train t2, losses_valid t2)
                     (metrics_train t2, metrics_valid t2) True (Some (fst kv)) (clock su epoch)) (\<lambda>fs'.
            on_ok (logger_info ''BEST_SAVED'' t2) (\<lambda>t3. Inr (t3, fs'))))
       else Inr (t1, snd w))))"

definition periodic_save ::
  "('m, 'o) env \<Rightarrow> int \<Rightarrow> ('m, 'o) trainer \<times> ('m, 'o) files
     \<Rightarrow> error + ('m, 'o) trainer \<times> ('m, 'o) files" where
  "periodic_save su epoch w =
     (if save_period_in_epochs su = 0 then Inl ZeroDivisionError
      else if epoch mod save_period_in_epochs su = 0
      then on_ok (save_checkpoint su (fst w) (snd w) epoch (losses_train (fst w), losses_valid (fst w))
                    (metrics_train (fst w), metrics_valid (fst w)) False None (clock su epoch)) (\<lambda>fs'.
           on_ok (logger_info ''PERIODIC_SAVED'' (fst w)) (\<lambda>t'. Inr (t', fs')))
      else Inr w)"

definition train_iteration ::
  "('m, 'o) env \<Rightarrow> int \<Rightarrow> ('m, 'o) trainer \<times> ('m, 'o) files
     \<Rightarrow> error + ('m, 'o) trainer \<times> ('m, 'o) files" where
  "train_iteration su epoch w =
     on_ok (logger_info ''EPOCH'' (fst w)) (\<lambda>t.
     on_ok (train_epoch su (train_dataloader su epoch) t) (\<lambda>(train_loss_metric, t).
     on_ok (logger_info ''LOSS'' (t\<lparr>losses_train := losses_train t @ [er_loss train_loss_metric]\<rparr>)) (\<lambda>t.
     on_ok (metric_items (er_metrics train_loss_metric)) (\<lambda>train_items.
     on_ok (for_each train_metric_step train_items t) (\<lambda>t.
     on_ok (validate_epoch su (valid_dataloader su epoch) t) (\<lambda>valid_loss_metric.
     on_ok (logger_info ''LOSS'' (t\<lparr>losses_valid := losses_valid t @ [er_loss valid_loss_metric]\<rparr>)) (\<lambda>t.
     on_ok (metric_items (er_metrics valid_loss_metric)) (\<lambda>valid_items.
     on_ok (for_each (valid_metric_step su epoch) valid_items (t, snd w)) (\<lambda>w1.
     on_ok (periodic_save su epoch w1) (\<lambda>w2.
     on_ok (logger_info ''TRAINER'' (fst w2)) (\<lambda>t. Inr (t, snd w2))))))))))))"

fun run_epochs ::
  "('m, 'o) env \<Rightarrow> int list \<Rightarrow> ('m, 'o) trainer \<times> ('m, 'o) files
     \<Rightarrow> (('m, 'o) trainer \<times> ('m, 'o) files) list \<times> error option" where
  "run_epochs su [] w = ([], None)"
| "run_epochs su (epoch # epochs) w =
     (case train_iteration su epoch w of
        Inl e \<Rightarrow> ([], Some e)
      | Inr w' \<Rightarrow> (case run_epochs su epochs w' of (trace, r) \<Rightarrow> (w' # trace, r)))"

definition train ::
  "('m, 'o) env \<Rightarrow> ('m, 'o) trainer \<times> ('m, 'o) files
     \<Rightarrow> error + ((real list \<times> real list) \<times> ((string \<rightharpoonup> real list) \<times> (string \<rightharpoonup> real list)))
                 \<times> ('m, 'o) trainer \<times> ('m, 'o) files" where
  "train su w =
     (case run_epochs su [start_epoch (fst w)..num_epochs su - 1] w of
        (trace, Some e) \<Rightarrow> Inl e
      | (trace, None) \<Rightarrow>
          on_ok (logger_info ''TRAINER'' (fst (last (w # trace)))) (\<lambda>t.
            Inr (((losses_train t, losses_valid t), (metrics_train t, metrics_valid t)),
                 t, snd (last (w # trace)))))"

subsection \<open>The checkpoint paths as the specification words them\<close>





subsection \<open>A small concrete trainer, used to run the definitions\<close>

definition example_metric :: "int list list \<Rightarrow> int list list \<Rightarrow> int \<Rightarrow> error + metric_value" where
  "example_metric logits targets n =
     Inr (MetricDict
            [(''f1_micro'',
              of_nat (length (filter (\<lambda>(p, y). p = y) (zip (concat logits) (concat targets))))
                / of_nat (length (concat targets))),
             (''f1_macro'', 1 / 2),
             (''f1_weighted'', 1 / 4)])"

definition example_env :: "(int, nat) env" where
  "example_env =
     \<lparr>model_forward = (\<lambda>training m data.
          Inr \<lparr>t3_d0 = t_rows data, t3_d1 = t_cols data, t3_d2 = 2,
               t3_cells = map (map (\<lambda>tok. [of_int m, of_int tok])) (t_cells data)\<rparr>),
      loss_fn = (\<lambda>cls labels. if t_rows cls = length labels then Inr (of_nat (length labels)) else Inl ValueError),
      optimizer_step = (\<lambda>m opt data labels. (m + 1, Suc opt)),
      lr_scheduler = None,
      metric_fn = Callable3 example_metric,
      cls_token_id = 101,
      device_of = Cpu,
      num_labels = 339,
      batch_size = 2,
      num_epochs = 2,
      train_dataloader = (\<lambda>epoch. [\<lparr>batch_data = \<lparr>t_rows = 1, t_cols = 2, t_cells = [[101, 7]]\<rparr>, batch_labels = [1]\<rparr>]),
      valid_dataloader = (\<lambda>epoch. [\<lparr>batch_data = \<lparr>t_rows = 1, t_cols = 2, t_cells = [[101, 9]]\<rparr>, batch_labels = [0]\<rparr>]),
      clock = (\<lambda>epoch. \<lparr>dt_day = 4, dt_month = 11, dt_year = 2026, dt_hour = 2, dt_minute = 20, dt_second = 5\<rparr>),
      cfg_metrics = [''f1_micro'', ''f1_macro'', ''f1_weighted''],
      save_period_in_epochs = 2,
      checkpoint_dir = ''checkpoints/'',
      start_from_checkpoint = False,
      checkpoint_name = ''model_best_f1_micro.pt''\<rparr>"

definition example_trainer :: "(int, nat) trainer" where
  "example_trainer =
     \<lparr>model = 0, optimizer = 0, start_epoch = 0,
      attrs = [''best_f1_micro'' \<mapsto> 0, ''best_f1_macro'' \<mapsto> 0, ''best_f1_weighted'' \<mapsto> 0],
      metrics_train = [''f1_micro'' \<mapsto> [], ''f1_macro'' \<mapsto> [], ''f1_weighted'' \<mapsto> []],
      metrics_valid = [''f1_micro'' \<mapsto> [], ''f1_macro'' \<mapsto> [], ''f1_weighted'' \<mapsto> []],
      losses_train = [], losses_valid = [], logger = Some []\<rparr>"

subsection \<open>Per-batch loss values of an epoch\<close>

definition batch_loss :: "('m, 'o) env \<Rightarrow> bool \<Rightarrow> 'm \<Rightarrow> batch \<Rightarrow> error + real" where
  \<comment> \<open>\<^verbatim>\<open>loss_fn(cls_logits, labels).item()\<close> for one batch under model state \<open>m\<close>\<close>
  "batch_loss su training m b =
     on_ok (model_forward su training m (batch_data b)) (\<lambda>logits.
     on_ok (get_token_logits (device_of su) (batch_data b) logits (cls_token_id su)) (\<lambda>cls_logits.
       loss_fn su cls_logits (batch_labels b)))"

fun model_states :: "('m, 'o) env \<Rightarrow> batch list \<Rightarrow> 'm \<times> 'o \<Rightarrow> ('m \<times> 'o) list" where
  \<comment> \<open>the model and optimizer state each training batch of an epoch is run on\<close>
  "model_states su [] mo = []"
| "model_states su (b # bs) mo =
     mo # model_states su bs (optimizer_step su (fst mo) (snd mo) (batch_data b) (batch_labels b))"

section \<open>Properties of prepare_device\<close>

lemma clamp_n_gpu_use_le: "fst (clamp_n_gpu_use n g) \<le> int g"
  by (simp add: clamp_n_gpu_use_def)

lemma clamp_n_gpu_use_min: "fst (clamp_n_gpu_use n g) = min n (int g)"
  by (simp add: clamp_n_gpu_use_def min_def)

lemma prepare_device_ids: "snd (fst (prepare_device n g)) = py_range (fst (clamp_n_gpu_use n g))"
  by (simp add: prepare_device_def split: prod.splits)

lemma prepare_device_device:
  "fst (fst (prepare_device n g)) = (if 0 < fst (clamp_n_gpu_use n g) then Cuda0 else Cpu)"
  by (simp add: prepare_device_def split: prod.splits)

text \<open>
  C8. Whatever number of GPUs is requested, the list of device ids is no longer than the
  number of GPUs the machine has. A positive request on a machine without GPU prints the
  no-GPU warning (and nothing else) and returns the CPU device with an empty id list.
  The clamped count is the smaller of the request and the number of GPUs; the returned
  device is \<^verbatim>\<open>cuda:0\<close> exactly when that count is positive, that is when both the request
  and the number of GPUs are positive, and it is the CPU otherwise. The id list counts from
  0 up to the clamped count.
\<close>

theorem prepare_device_clamps:
  "length (snd (fst (prepare_device n g))) \<le> g
   \<and> (0 < n \<and> g = 0 \<longrightarrow> prepare_device n g = ((Cpu, []), [warning_no_gpu]))
   \<and> fst (clamp_n_gpu_use n g) = min n (int g)
   \<and> (fst (fst (prepare_device n g)) = Cuda0 \<longleftrightarrow> 0 < fst (clamp_n_gpu_use n g))
   \<and> (fst (fst (prepare_device n g)) = Cuda0 \<longleftrightarrow> 0 < n \<and> 0 < g)
   \<and> (fst (fst (prepare_device n g)) = Cpu \<longleftrightarrow> n \<le> 0 \<or> g = 0)
   \<and> snd (fst (prepare_device n g)) = map int [0..<nat (min n (int g))]"
proof (intro conjI impI)
  have "nat (fst (clamp_n_gpu_use n g)) \<le> g"
    using clamp_n_gpu_use_le [of n g] by linarith
  then show "length (snd (fst (prepare_device n g))) \<le> g"
    by (simp add: prepare_device_ids py_range_def)
next
  assume "0 < n \<and> g = 0"
  then show "prepare_device n g = ((Cpu, []), [warning_no_gpu])"
    by (simp add: prepare_device_def clamp_n_gpu_use_def py_range_def)
next
  show "fst (clamp_n_gpu_use n g) = min n (int g)"
    by (rule clamp_n_gpu_use_min)
next
  show "fst (fst (prepare_device n g)) = Cuda0 \<longleftrightarrow> 0 < fst (clamp_n_gpu_use n g)"
    by (simp add: prepare_device_device)
next
  show "fst (fst (prepare_device n g)) = Cuda0 \<longleftrightarrow> 0 < n \<and> 0 < g"
    by (simp add: prepare_device_device clamp_n_gpu_use_min)
next
  show "fst (fst (prepare_device n g)) = Cpu \<longleftrightarrow> n \<le> 0 \<or> g = 0"
    by (auto simp: prepare_device_device clamp_n_gpu_use_min)
next
  show "snd (fst (prepare_device n g)) = map int [0..<nat (min n (int g))]"
    by (simp add: prepare_device_ids clamp_n_gpu_use_min py_range_def)
qed

theorem prepare_device_clamps_witness:
  "(0::int) < 2 \<and> (0::nat) = 0
   \<and> prepare_device 2 0 = ((Cpu, []), [warning_no_gpu])
   \<and> length (snd (fst (prepare_device 2 0))) \<le> 0
   \<and> fst (fst (prepare_device 4 2)) = Cuda0 \<and> snd (fst (prepare_device 4 2)) = [0, 1]
   \<and> fst (fst (prepare_device 0 2)) = Cpu \<and> snd (fst (prepare_device 0 2)) = []
   \<and> fst (fst (prepare_device 1 2)) = Cuda0 \<and> snd (fst (prepare_device 1 2)) = [0]"
proof -
  have a: "prepare_device 2 0 = ((Cpu, []), [warning_no_gpu])"
    using prepare_device_clamps [of 2 0] by simp
  have b: "length (snd (fst (prepare_device 2 0))) \<le> 0"
    using prepare_device_clamps [of 2 0] by simp
  have d: "fst (fst (prepare_device 4 2)) = Cuda0" "snd (fst (prepare_device 4 2)) = [0, 1]"
    using prepare_device_clamps [of 4 2] by (simp_all add: upt_rec)
  have e: "fst (fst (prepare_device 0 2)) = Cpu" "snd (fst (prepare_device 0 2)) = []"
    using prepare_device_clamps [of 0 2] by simp_all
  have f: "fst (fst (prepare_device 1 2)) = Cuda0" "snd (fst (prepare_device 1 2)) = [0]"
    using prepare_device_clamps [of 1 2] by (simp_all add: upt_rec)
  from a b d e f show ?thesis by simp
qed

section \<open>Properties of collate\<close>

lemma fold_max_eq_Max: "fold max xs (a::nat) = Max (set (a # xs))"
  by (simp only: Max.set_eq_fold)

lemma fold_max_upper: "x \<in> set xs \<Longrightarrow> x \<le> fold max xs (a::nat)"
  by (simp add: fold_max_eq_Max)

lemma padded_row:
  assumes "length s \<le> L"
  shows "map (\<lambda>t. if t < length s then s ! t else (0::int)) [0..<L] = s @ replicate (L - length s) 0"
proof (rule nth_equalityI)
  show "length (map (\<lambda>t. if t < length s then s ! t else 0) [0..<L]) = length (s @ replicate (L - length s) 0)"
    using assms by simp
next
  fix i assume "i < length (map (\<lambda>t. if t < length s then s ! t else (0::int)) [0..<L])"
  then show "map (\<lambda>t. if t < length s then s ! t else 0) [0..<L] ! i = (s @ replicate (L - length s) 0) ! i"
    by (simp add: nth_append)
qed

lemma collate_cells:
  assumes "samples \<noteq> []"
  shows "\<exists>b. collate samples = Inr b \<and> t_rows (batch_data b) = length samples 
    \<and> t_cols (batch_data b) = fold max (map (length \<circ> sample_data) samples) 0
    \<and> t_cells (batch_data b) = map (\<lambda>s. sample_data s @ replicate (t_cols (batch_data b) - length (sample_data s)) 0) samples
    \<and> batch_labels b = concat (map sample_labels samples)"
  using assms
  apply (simp add: collate_def pad_sequence_def torch_cat_def tensor_T_def Let_def)
  apply (rule nth_equalityI)
   apply simp
  apply (simp add: comp_def)
  apply (subst padded_row [symmetric])
   apply (rule fold_max_upper)
   apply simp
  apply simp
  done


text \<open>
  C7 (as amended). For every non-empty list of samples, collation succeeds; the data tensor
  has one row per sample and as many columns as the longest sequence, each row being the
  sample's sequence followed by zeros. The flattened label sequence is the concatenation of
  the samples' label sequences, so its length is the total number of labels; it equals the
  number of samples when every sample carries exactly one label.
\<close>

theorem collate_pads_and_flattens:
  assumes "samples \<noteq> []"
  shows "\<exists>b. collate samples = Inr b
    \<and> wf_tensor2 (batch_data b)
    \<and> t_rows (batch_data b) = length samples
    \<and> t_cols (batch_data b) = Max (set (map (length \<circ> sample_data) samples))
    \<and> t_cells (batch_data b)
        = map (\<lambda>s. sample_data s @ replicate (t_cols (batch_data b) - length (sample_data s)) 0) samples
    \<and> batch_labels b = concat (map sample_labels samples)
    \<and> length (batch_labels b) = sum_list (map (length \<circ> sample_labels) samples)
    \<and> (list_all (\<lambda>s. length (sample_labels s) = 1) samples \<longrightarrow> length (batch_labels b) = length samples)"
proof -
  obtain b where b: "collate samples = Inr b"
    and rows: "t_rows (batch_data b) = length samples"
    and cols: "t_cols (batch_data b) = fold max (map (length \<circ> sample_data) samples) 0"
    and cells: "t_cells (batch_data b)
        = map (\<lambda>s. sample_data s @ replicate (t_cols (batch_data b) - length (sample_data s)) 0) samples"
    and labels: "batch_labels b = concat (map sample_labels samples)"
    using collate_cells [OF assms] by blast
  have upper: "\<And>s. s \<in> set samples \<Longrightarrow> length (sample_data s) \<le> t_cols (batch_data b)"
    unfolding cols by (rule fold_max_upper) simp
  have wf: "wf_tensor2 (batch_data b)"
    using upper by (simp add: wf_tensor2_def rows cells list_all_iff)
  have mx: "fold max (map (length \<circ> sample_data) samples) 0
            = Max (set (map (length \<circ> sample_data) samples))"
  proof -
    have ne: "set (map (length \<circ> sample_data) samples) \<noteq> {}" using assms by simp
    have "fold max (map (length \<circ> sample_data) samples) 0
          = Max (insert 0 (set (map (length \<circ> sample_data) samples)))"
      by (simp add: fold_max_eq_Max)
    also have "\<dots> = max 0 (Max (set (map (length \<circ> sample_data) samples)))"
      using ne by (subst Max_insert) simp_all
    finally show ?thesis by simp
  qed
  have cnt: "length (batch_labels b) = sum_list (map (length \<circ> sample_labels) samples)"
    by (simp add: labels length_concat comp_def)
  have one: "list_all (\<lambda>s. length (sample_labels s) = 1) samples \<longrightarrow> length (batch_labels b) = length samples"
  proof
    assume "list_all (\<lambda>s. length (sample_labels s) = 1) samples"
    then have "map (length \<circ> sample_labels) samples = replicate (length samples) 1"
      by (induction samples) simp_all
    then show "length (batch_labels b) = length samples"
      by (simp add: cnt sum_list_replicate)
  qed
  show ?thesis
    using b wf rows cols mx cells labels cnt one by (intro exI [of _ b]) simp
qed


theorem collate_pads_and_flattens_witness:
  "[\<lparr>sample_data = [101, 7, 8], sample_labels = [3]\<rparr>, \<lparr>sample_data = [101, 9], sample_labels = [5]\<rparr>] \<noteq> []
   \<and> list_all (\<lambda>s. length (sample_labels s) = 1)
        [\<lparr>sample_data = [101, 7, 8], sample_labels = [3]\<rparr>, \<lparr>sample_data = [101, 9], sample_labels = [5]\<rparr>]
   \<and> (\<exists>b. collate [\<lparr>sample_data = [101, 7, 8], sample_labels = [3]\<rparr>,
                     \<lparr>sample_data = [101, 9], sample_labels = [5]\<rparr>] = Inr b
          \<and> t_rows (batch_data b) = 2 \<and> t_cols (batch_data b) = 3
          \<and> t_cells (batch_data b) = [[101, 7, 8], [101, 9, 0]]
          \<and> batch_labels b = [3, 5] \<and> length (batch_labels b) = 2)"
  using collate_pads_and_flattens
          [of "[\<lparr>sample_data = [101, 7, 8], sample_labels = [3]\<rparr>, \<lparr>sample_data = [101, 9], sample_labels = [5]\<rparr>]"]
  by auto

text \<open>
  One sample holding a table of two columns has two labels: the label count of the batch
  is 2 while the batch has 1 example.
\<close>

theorem collate_label_count_counterexample:
  "collate [\<lparr>sample_data = [101, 7, 101, 9], sample_labels = [3, 5]\<rparr>]
     = Inr \<lparr>batch_data = \<lparr>t_rows = 1, t_cols = 4, t_cells = [[101, 7, 101, 9]]\<rparr>, batch_labels = [3, 5]\<rparr>
   \<and> length [3, 5 :: int] \<noteq> length [\<lparr>sample_data = [101, 7, 101, 9], sample_labels = [3, 5]\<rparr>]"
  by (simp add: collate_def pad_sequence_def torch_cat_def tensor_T_def on_ok_def upt_rec)

section \<open>Properties of get_token_logits\<close>

lemma copy_token_rows_upt:
  assumes "\<forall>i<n. fst (idx ! i) < t3_d0 lg \<and> snd (idx ! i) < t3_d1 lg"
    and "length out = n" and "length idx = n" and "a \<le> n"
  shows "copy_token_rows lg idx [a..<n] out
         = Inr (take a out @ map (\<lambda>(j, k). t3_cells lg ! j ! k) (drop a idx))"
  using assms
proof (induction "n - a" arbitrary: a out)
  case 0
  then show ?case by simp
next
  case (Suc d)
  then have lt: "a < n" by linarith
  obtain j k where jk: "idx ! a = (j, k)" by (cases "idx ! a")
  have inr: "j < t3_d0 lg \<and> k < t3_d1 lg"
    using Suc.prems(1) lt jk by fastforce
  have step: "copy_token_rows lg idx [a..<n] out
      = copy_token_rows lg idx [Suc a..<n] (out[a := t3_cells lg ! j ! k])"
    using lt jk inr by (simp add: upt_rec [of a n])
  have ih: "copy_token_rows lg idx [Suc a..<n] (out[a := t3_cells lg ! j ! k])
      = Inr (take (Suc a) (out[a := t3_cells lg ! j ! k])
             @ map (\<lambda>(j, k). t3_cells lg ! j ! k) (drop (Suc a) idx))"
    using Suc.hyps(1) [of "Suc a" "out[a := t3_cells lg ! j ! k]"] Suc.hyps(2) Suc.prems lt
    by simp
  have tk: "take (Suc a) (out[a := t3_cells lg ! j ! k]) = take a out @ [t3_cells lg ! j ! k]"
    using lt Suc.prems(2) by (simp add: take_Suc_conv_app_nth)
  have dr: "drop a idx = (j, k) # drop (Suc a) idx"
    using lt Suc.prems(3) jk by (simp add: Cons_nth_drop_Suc [symmetric])
  show ?case by (simp add: step ih tk dr)
qed

lemma nonzero_eq_in_range:
  "(j, k) \<in> set (nonzero_eq data tok) \<Longrightarrow> j < t_rows data \<and> k < t_cols data"
  by (auto simp: nonzero_eq_def)

lemma set_nonzero_eq:
  "set (nonzero_eq data tok)
   = {(j, k). j < t_rows data \<and> k < t_cols data \<and> t_cells data ! j ! k = tok}"
  by (auto simp: nonzero_eq_def)

lemma length_filter_product:
  "length (filter P (List.product xs ys))
   = sum_list (map (\<lambda>x. length (filter (\<lambda>y. P (x, y)) ys)) xs)"
  by (induction xs) (simp_all add: filter_map comp_def)

lemma count_list_by_index:
  "count_list row x = length (filter (\<lambda>k. row ! k = x) [0..<length row])"
proof -
  have "length (filter (\<lambda>k. row ! k = x) [0..<length row])
        = length (filter (\<lambda>y. y = x) (map (nth row) [0..<length row]))"
    by (simp add: filter_map comp_def)
  also have "\<dots> = length (filter (\<lambda>y. y = x) row)" by (simp add: map_nth)
  also have "\<dots> = count_list row x"
    by (induction row) auto
  finally show ?thesis by simp
qed

lemma count_list_concat:
  "count_list (concat xss) x = sum_list (map (\<lambda>xs. count_list xs x) xss)"
  by (induction xss) simp_all

lemma length_nonzero_eq:
  assumes "wf_tensor2 data"
  shows "length (nonzero_eq data tok) = count_list (concat (t_cells data)) tok"
proof -
  have len: "length (t_cells data) = t_rows data"
    and cols: "\<And>j. j < t_rows data \<Longrightarrow> length (t_cells data ! j) = t_cols data"
    using assms by (auto simp: wf_tensor2_def list_all_length)
  have "count_list (concat (t_cells data)) tok
        = sum_list (map (\<lambda>xs. count_list xs tok) (map (nth (t_cells data)) [0..<t_rows data]))"
    using len by (simp only: count_list_concat map_nth [of "t_cells data", unfolded len])
  also have "\<dots> = sum_list (map (\<lambda>j. count_list (t_cells data ! j) tok) [0..<t_rows data])"
    by (simp add: comp_def)
  also have "\<dots> = sum_list (map (\<lambda>j. length (filter (\<lambda>k. t_cells data ! j ! k = tok) [0..<t_cols data])) [0..<t_rows data])"
    by (rule arg_cong [where f = sum_list], rule map_cong) (auto simp: count_list_by_index cols)
  also have "\<dots> = length (nonzero_eq data tok)"
    by (simp add: nonzero_eq_def length_filter_product)
  finally show ?thesis by simp
qed

lemma sorted_wrt_product:
  "sorted_wrt (<) xs \<Longrightarrow> sorted_wrt (<) ys \<Longrightarrow> sorted_wrt scan_before (List.product xs ys)"
proof (induction xs)
  case Nil
  then show ?case by simp
next
  case (Cons x xs)
  have row: "sorted_wrt scan_before (map (Pair x) ys)"
    using Cons.prems(2) by (simp add: sorted_wrt_map scan_before_def)
  have rest: "sorted_wrt scan_before (List.product xs ys)"
    using Cons by simp
  have cross: "\<forall>p\<in>set (map (Pair x) ys). \<forall>q\<in>set (List.product xs ys). scan_before p q"
    using Cons.prems(1) by (auto simp: scan_before_def)
  show ?case
    using row rest cross by (simp add: sorted_wrt_append)
qed

lemma sorted_wrt_nonzero_eq: "sorted_wrt scan_before (nonzero_eq data tok)"
  unfolding nonzero_eq_def
  by (rule sorted_wrt_filter, rule sorted_wrt_product) (simp_all add: sorted_wrt_upt)

lemma get_token_logits_rows:
  assumes "t3_d0 logits = t_rows data" and "t3_d1 logits = t_cols data"
  shows "get_token_logits dev data logits tok
         = Inr \<lparr>t_rows = length (nonzero_eq data tok), t_cols = t3_d2 logits,
                t_cells = map (\<lambda>(j, k). t3_cells logits ! j ! k) (nonzero_eq data tok)\<rparr>"
proof -
  let ?idx = "nonzero_eq data tok"
  have rng: "\<forall>i<length ?idx. fst (?idx ! i) < t3_d0 logits \<and> snd (?idx ! i) < t3_d1 logits"
  proof (intro allI impI)
    fix i assume "i < length ?idx"
    then have "(fst (?idx ! i), snd (?idx ! i)) \<in> set ?idx" by simp
    then show "fst (?idx ! i) < t3_d0 logits \<and> snd (?idx ! i) < t3_d1 logits"
      using nonzero_eq_in_range assms by metis
  qed
  have "copy_token_rows logits ?idx [0..<length ?idx] (replicate (length ?idx) (replicate (t3_d2 logits) 0))
        = Inr (map (\<lambda>(j, k). t3_cells logits ! j ! k) ?idx)"
    using copy_token_rows_upt [OF rng, of _ 0] by simp
  then show ?thesis by (simp add: get_token_logits_def Let_def)
qed

text \<open>
  C6. When the logits tensor has one vector per token of the batch, token-logit extraction
  succeeds and returns one row per occurrence of the token id in the batch; the matched
  positions are listed in row-major order (strictly increasing for \<open>scan_before\<close>, and
  exactly the positions holding the token id), and row \<open>i\<close> of the result is the logits
  vector at the \<open>i\<close>-th matched position.
\<close>

theorem get_token_logits_row_major:
  assumes "wf_tensor2 data" and "t3_d0 logits = t_rows data" and "t3_d1 logits = t_cols data"
  shows "\<exists>out. get_token_logits dev data logits token_id = Inr out
    \<and> t_rows out = count_list (concat (t_cells data)) token_id
    \<and> length (t_cells out) = t_rows out
    \<and> t_cols out = t3_d2 logits
    \<and> sorted_wrt scan_before (nonzero_eq data token_id)
    \<and> set (nonzero_eq data token_id)
        = {(j, k). j < t_rows data \<and> k < t_cols data \<and> t_cells data ! j ! k = token_id}
    \<and> (\<forall>i<t_rows out.
          t_cells out ! i
          = t3_cells logits ! fst (nonzero_eq data token_id ! i) ! snd (nonzero_eq data token_id ! i))"
proof -
  let ?idx = "nonzero_eq data token_id"
  let ?out = "\<lparr>t_rows = length ?idx, t_cols = t3_d2 logits,
               t_cells = map (\<lambda>(j, k). t3_cells logits ! j ! k) ?idx\<rparr>"
  have res: "get_token_logits dev data logits token_id = Inr ?out"
    using assms(2,3) by (rule get_token_logits_rows)
  have cnt: "t_rows ?out = count_list (concat (t_cells data)) token_id"
    using assms(1) by (simp add: length_nonzero_eq)
  have rows: "\<forall>i<t_rows ?out.
      t_cells ?out ! i = t3_cells logits ! fst (?idx ! i) ! snd (?idx ! i)"
    by (simp add: case_prod_beta)
  show ?thesis
    using res cnt rows sorted_wrt_nonzero_eq [of data token_id] set_nonzero_eq [of data token_id]
    by (intro exI [of _ ?out]) simp
qed

theorem get_token_logits_row_major_witness:
  "wf_tensor2 \<lparr>t_rows = 2, t_cols = 3, t_cells = [[101, 5, 101], [7, 101, 0::int]]\<rparr>
   \<and> (\<exists>out. get_token_logits Cpu
               \<lparr>t_rows = 2, t_cols = 3, t_cells = [[101, 5, 101], [7, 101, 0]]\<rparr>
               \<lparr>t3_d0 = 2, t3_d1 = 3, t3_d2 = 2,
                t3_cells = [[[1, 2], [3, 4], [5, 6]], [[7, 8], [9, 10], [11, 12]]]\<rparr> 101 = Inr out
          \<and> t_rows out = 3
          \<and> t_cells out = [[1, 2], [5, 6], [9, 10]])"
proof -
  let ?data = "\<lparr>t_rows = 2, t_cols = 3, t_cells = [[101, 5, 101], [7, 101, 0::int]]\<rparr>"
  let ?logits = "\<lparr>t3_d0 = 2, t3_d1 = 3, t3_d2 = 2,
                 t3_cells = [[[1, 2], [3, 4], [5, 6]], [[7, 8], [9, 10], [11, 12::real]]]\<rparr>"
  have wf: "wf_tensor2 ?data" by (simp add: wf_tensor2_def)
  have idx: "nonzero_eq ?data 101 = [(0, 0), (0, 2), (1, 1)]"
    by (simp add: nonzero_eq_def upt_rec)
  obtain out where out: "get_token_logits Cpu ?data ?logits 101 = Inr out"
    and n: "t_rows out = count_list (concat (t_cells ?data)) 101"
    and len: "length (t_cells out) = t_rows out"
    and rows: "\<forall>i<t_rows out. t_cells out ! i
               = t3_cells ?logits ! fst (nonzero_eq ?data 101 ! i) ! snd (nonzero_eq ?data 101 ! i)"
    using get_token_logits_row_major [OF wf, of ?logits Cpu 101] by auto
  have n3: "t_rows out = 3" using n by simp
  have "t_cells out ! 0 = [1, 2]" "t_cells out ! Suc 0 = [5, 6]" "t_cells out ! Suc (Suc 0) = [9, 10]"
    using rows n3 by (simp_all add: idx)
  then have "t_cells out = [[1, 2], [5, 6], [9, 10]]"
    using len n3 by (intro nth_equalityI) (auto simp: less_Suc_eq numeral_3_eq_3)
  then show ?thesis using wf out n3 by blast
qed

section \<open>Properties of the checkpoint paths\<close>







lemma for_each_best_metrics_defined:
  assumes "\<forall>i\<in>set names. attrs t (best_name i) \<noteq> None"
  shows "\<exists>d'. for_each (\<lambda>i d. on_ok (getattr t (best_name i)) (\<lambda>v. Inr (d(best_name i \<mapsto> v)))) names d = Inr d'
           \<and> (\<forall>i\<in>set names. d' (best_name i) = attrs t (best_name i))
           \<and> (\<forall>k. k \<notin> best_name ` set names \<longrightarrow> d' k = d k)"
  using assms
proof (induction names arbitrary: d)
  case Nil
  then show ?case by simp
next
  case (Cons i names)
  then obtain v where v: "attrs t (best_name i) = Some v" by auto
  let ?d = "d(best_name i \<mapsto> v)"
  have prem: "\<forall>i\<in>set names. attrs t (best_name i) \<noteq> None"
    using Cons.prems by simp
  from Cons.IH [OF prem, of ?d]
  obtain d' where d': "for_each (\<lambda>i d. on_ok (getattr t (best_name i)) (\<lambda>v. Inr (d(best_name i \<mapsto> v)))) names ?d = Inr d'"
    and keep: "\<forall>i\<in>set names. d' (best_name i) = attrs t (best_name i)"
    and other: "\<forall>k. k \<notin> best_name ` set names \<longrightarrow> d' k = ?d k"
    by blast
  have step: "for_each (\<lambda>i d. on_ok (getattr t (best_name i)) (\<lambda>v. Inr (d(best_name i \<mapsto> v)))) (i # names) d = Inr d'"
    using v d' by (simp add: getattr_def on_ok_def)
  have here: "d' (best_name i) = attrs t (best_name i)"
  proof (cases "best_name i \<in> best_name ` set names")
    case True
    then show ?thesis using keep by auto
  next
    case False
    then show ?thesis using other v by simp
  qed
  show ?case
  proof (intro exI [of _ d'] conjI)
    show "for_each (\<lambda>i d. on_ok (getattr t (best_name i)) (\<lambda>v. Inr (d(best_name i \<mapsto> v)))) (i # names) d = Inr d'"
      by (rule step)
    show "\<forall>j\<in>set (i # names). d' (best_name j) = attrs t (best_name j)"
      using keep here by simp
    show "\<forall>k. k \<notin> best_name ` set (i # names) \<longrightarrow> d' k = d k"
      using other by simp
  qed
qed

lemma best_metrics_dict_defined:
  assumes "\<forall>i\<in>set names. attrs t (best_name i) \<noteq> None"
  shows "\<exists>d. best_metrics_dict t names = Inr d
           \<and> (\<forall>i\<in>set names. d (best_name i) = attrs t (best_name i))"
  using for_each_best_metrics_defined [OF assms, of Map.empty]
  unfolding best_metrics_dict_def by blast

lemma save_checkpoint_writes:
  assumes "save_checkpoint su t fs epoch losses metrics save_best suffix now = Inr fs'"
  shows "\<exists>best. best_metrics_dict t (cfg_metrics su) = Inr best
           \<and> fs' = fs(checkpoint_path (checkpoint_dir su) epoch save_best suffix now \<mapsto>
                        \<lparr>ck_epoch = epoch, ck_model_state_dict = model t,
                         ck_optimizer_state_dict = optimizer t, ck_losses = losses,
                         ck_metrics = metrics, ck_best_metrics = best\<rparr>)"
  using assms by (auto simp: save_checkpoint_def on_ok_def Let_def split: sum.splits)

lemma save_checkpoint_succeeds:
  assumes "\<forall>i\<in>set (cfg_metrics su). attrs t (best_name i) \<noteq> None"
  shows "\<exists>fs'. save_checkpoint su t fs epoch losses metrics save_best suffix now = Inr fs'"
  using best_metrics_dict_defined [OF assms]
  by (auto simp: save_checkpoint_def on_ok_def Let_def)





section \<open>Properties of saving and loading checkpoints\<close>

lemma load_best_metrics_loop:
  assumes "\<forall>i\<in>set names. best (best_name i) \<noteq> None"
  shows "\<exists>t'. for_each
                 (\<lambda>metric_name t'.
                    case best (best_name metric_name) of
                      None \<Rightarrow> Inl KeyError
                    | Some v \<Rightarrow> Inr (setattr t' (best_name metric_name) v))
                 names t0 = Inr t'
           \<and> (\<forall>i\<in>set names. attrs t' (best_name i) = best (best_name i))
           \<and> (\<forall>k. k \<notin> best_name ` set names \<longrightarrow> attrs t' k = attrs t0 k)
           \<and> t' = t0\<lparr>attrs := attrs t'\<rparr>"
  using assms
proof (induction names arbitrary: t0)
  case Nil
  then show ?case by simp
next
  case (Cons i names)
  then obtain v where v: "best (best_name i) = Some v" by auto
  let ?t1 = "setattr t0 (best_name i) v"
  have prem: "\<forall>i\<in>set names. best (best_name i) \<noteq> None"
    using Cons.prems by simp
  from Cons.IH [OF prem, of ?t1]
  obtain t' where run: "for_each
                 (\<lambda>metric_name t'.
                    case best (best_name metric_name) of
                      None \<Rightarrow> Inl KeyError
                    | Some v \<Rightarrow> Inr (setattr t' (best_name metric_name) v))
                 names ?t1 = Inr t'"
    and keep: "\<forall>i\<in>set names. attrs t' (best_name i) = best (best_name i)"
    and other: "\<forall>k. k \<notin> best_name ` set names \<longrightarrow> attrs t' k = attrs ?t1 k"
    and rest: "t' = ?t1\<lparr>attrs := attrs t'\<rparr>"
    by blast
  have here: "attrs t' (best_name i) = best (best_name i)"
  proof (cases "best_name i \<in> best_name ` set names")
    case True
    then show ?thesis using keep by auto
  next
    case False
    then show ?thesis using other v by (simp add: setattr_def)
  qed
  show ?case
  proof (intro exI [of _ t'] conjI)
    show "for_each
                 (\<lambda>metric_name t'.
                    case best (best_name metric_name) of
                      None \<Rightarrow> Inl KeyError
                    | Some v \<Rightarrow> Inr (setattr t' (best_name metric_name) v))
                 (i # names) t0 = Inr t'"
      using v run by simp
    show "\<forall>j\<in>set (i # names). attrs t' (best_name j) = best (best_name j)"
      using keep here by simp
    show "\<forall>k. k \<notin> best_name ` set (i # names) \<longrightarrow> attrs t' k = attrs t0 k"
      using other by (simp add: setattr_def)
    show "t' = t0\<lparr>attrs := attrs t'\<rparr>"
      by (subst rest) (simp add: setattr_def)
  qed
qed

lemma load_checkpoint_restores:
  assumes saved: "fs path = Some ck"
    and keys: "\<forall>i\<in>set (cfg_metrics su). ck_best_metrics ck (best_name i) \<noteq> None"
  shows "\<exists>t'. load_checkpoint su t fs path = Inr t'
           \<and> start_epoch t' = ck_epoch ck + 1
           \<and> model t' = ck_model_state_dict ck
           \<and> optimizer t' = ck_optimizer_state_dict ck
           \<and> losses_train t' = fst (ck_losses ck) \<and> losses_valid t' = snd (ck_losses ck)
           \<and> metrics_train t' = fst (ck_metrics ck) \<and> metrics_valid t' = snd (ck_metrics ck)
           \<and> (\<forall>i\<in>set (cfg_metrics su). attrs t' (best_name i) = ck_best_metrics ck (best_name i))
           \<and> (\<forall>k. k \<notin> best_name ` set (cfg_metrics su) \<longrightarrow> attrs t' k = attrs t k)
           \<and> logger t' = logger t"
proof -
  let ?t0 = "t\<lparr>start_epoch := ck_epoch ck + 1, model := ck_model_state_dict ck,
               optimizer := ck_optimizer_state_dict ck\<rparr>"
  from load_best_metrics_loop [OF keys, of ?t0]
  obtain t1 where run: "for_each
                 (\<lambda>metric_name t'.
                    case ck_best_metrics ck (best_name metric_name) of
                      None \<Rightarrow> Inl KeyError
                    | Some v \<Rightarrow> Inr (setattr t' (best_name metric_name) v))
                 (cfg_metrics su) ?t0 = Inr t1"
    and keep: "\<forall>i\<in>set (cfg_metrics su). attrs t1 (best_name i) = ck_best_metrics ck (best_name i)"
    and other: "\<forall>k. k \<notin> best_name ` set (cfg_metrics su) \<longrightarrow> attrs t1 k = attrs ?t0 k"
    and rest: "t1 = ?t0\<lparr>attrs := attrs t1\<rparr>"
    by blast
  let ?t' = "t1\<lparr>metrics_train := fst (ck_metrics ck), metrics_valid := snd (ck_metrics ck),
                losses_train := fst (ck_losses ck), losses_valid := snd (ck_losses ck)\<rparr>"
  have res: "load_checkpoint su t fs path = Inr ?t'"
    using saved run by (simp add: load_checkpoint_def on_ok_def)
  have f1: "start_epoch t1 = ck_epoch ck + 1" "model t1 = ck_model_state_dict ck"
    "optimizer t1 = ck_optimizer_state_dict ck" "logger t1 = logger t"
    by (subst rest, simp)+
  show ?thesis
    using res f1 keep other by (intro exI [of _ ?t']) simp
qed


lemma save_then_load:
  assumes defined: "\<forall>i\<in>set (cfg_metrics su). attrs t (best_name i) \<noteq> None"
  shows "\<exists>fs' t'.
      save_checkpoint su t fs e losses metrics save_best suffix now = Inr fs'
    \<and> load_checkpoint su t2 fs' (checkpoint_path (checkpoint_dir su) e save_best suffix now) = Inr t'
    \<and> model t' = model t \<and> optimizer t' = optimizer t
    \<and> losses_train t' = fst losses \<and> losses_valid t' = snd losses
    \<and> metrics_train t' = fst metrics \<and> metrics_valid t' = snd metrics
    \<and> (\<forall>i\<in>set (cfg_metrics su). attrs t' (best_name i) = attrs t (best_name i))
    \<and> start_epoch t' = e + 1"
proof -
  let ?path = "checkpoint_path (checkpoint_dir su) e save_best suffix now"
  obtain fs' where sv: "save_checkpoint su t fs e losses metrics save_best suffix now = Inr fs'"
    using save_checkpoint_succeeds [OF defined] by blast
  obtain best where bd: "best_metrics_dict t (cfg_metrics su) = Inr best"
    and fs': "fs' = fs(?path \<mapsto>
                        \<lparr>ck_epoch = e, ck_model_state_dict = model t,
                         ck_optimizer_state_dict = optimizer t, ck_losses = losses,
                         ck_metrics = metrics, ck_best_metrics = best\<rparr>)"
    using save_checkpoint_writes [OF sv] by blast
  have best_eq: "\<forall>i\<in>set (cfg_metrics su). best (best_name i) = attrs t (best_name i)"
    using best_metrics_dict_defined [OF defined] bd by auto
  let ?ck = "\<lparr>ck_epoch = e, ck_model_state_dict = model t,
               ck_optimizer_state_dict = optimizer t, ck_losses = losses,
               ck_metrics = metrics, ck_best_metrics = best\<rparr>"
  have stored: "fs' ?path = Some ?ck" by (simp add: fs')
  have keys: "\<forall>i\<in>set (cfg_metrics su). ck_best_metrics ?ck (best_name i) \<noteq> None"
    using best_eq defined by simp
  from load_checkpoint_restores [where fs = fs' and path = ?path and ck = ?ck and su = su and t = t2, OF stored keys]
  obtain t' where ld: "load_checkpoint su t2 fs' ?path = Inr t'"
    and fields: "start_epoch t' = e + 1" "model t' = model t" "optimizer t' = optimizer t"
      "losses_train t' = fst losses" "losses_valid t' = snd losses"
      "metrics_train t' = fst metrics" "metrics_valid t' = snd metrics"
    and bests: "\<forall>i\<in>set (cfg_metrics su). attrs t' (best_name i) = best (best_name i)"
    by auto
  show ?thesis
    using sv ld fields bests best_eq by (intro exI [of _ fs'] exI [of _ t']) simp
qed

lemma init_trainer_resumes:
  assumes "start_from_checkpoint su"
  shows "\<exists>t2. init_trainer su mdl opt (Some lg) fs
               = load_checkpoint su t2 fs (checkpoint_dir su @ checkpoint_name su)"
  using assms by (simp add: init_trainer_def logger_info_def on_ok_def Let_def) (rule exI, rule refl)

text \<open>
  C2. Let a trainer whose best attributes exist for every configured metric (as the
  constructor leaves them) save a checkpoint at epoch \<open>e\<close> with its own loss and metric
  histories, as both call sites do. The save succeeds, and loading the written file into any
  trainer with the same configuration succeeds and leaves that trainer with the saved model
  state, optimizer state, loss histories, metric histories and best values, and with start
  epoch \<open>e + 1\<close>. A trainer constructed with \<^verbatim>\<open>start_from_checkpoint\<close> and that file name
  is restored in the same way.
\<close>

theorem checkpoint_round_trip:
  assumes "\<forall>i\<in>set (cfg_metrics su). attrs t (best_name i) \<noteq> None"
  shows "\<exists>fs'.
      save_checkpoint su t fs e (losses_train t, losses_valid t) (metrics_train t, metrics_valid t)
        save_best suffix now = Inr fs'
    \<and> (\<exists>t'. load_checkpoint su t2 fs' (checkpoint_path (checkpoint_dir su) e save_best suffix now) = Inr t'
          \<and> model t' = model t \<and> optimizer t' = optimizer t
          \<and> losses_train t' = losses_train t \<and> losses_valid t' = losses_valid t
          \<and> metrics_train t' = metrics_train t \<and> metrics_valid t' = metrics_valid t
          \<and> (\<forall>i\<in>set (cfg_metrics su). attrs t' (best_name i) = attrs t (best_name i))
          \<and> start_epoch t' = e + 1)
    \<and> (start_from_checkpoint su
         \<and> checkpoint_dir su @ checkpoint_name su = checkpoint_path (checkpoint_dir su) e save_best suffix now
       \<longrightarrow> (\<exists>t'. init_trainer su mdl opt (Some lg) fs' = Inr t'
          \<and> model t' = model t \<and> optimizer t' = optimizer t
          \<and> losses_train t' = losses_train t \<and> losses_valid t' = losses_valid t
          \<and> metrics_train t' = metrics_train t \<and> metrics_valid t' = metrics_valid t
          \<and> (\<forall>i\<in>set (cfg_metrics su). attrs t' (best_name i) = attrs t (best_name i))
          \<and> start_epoch t' = e + 1))"
proof -
  let ?path = "checkpoint_path (checkpoint_dir su) e save_best suffix now"
  let ?save = "save_checkpoint su t fs e (losses_train t, losses_valid t)
                 (metrics_train t, metrics_valid t) save_best suffix now"
  let ?ok = "\<lambda>r. \<exists>t'. r = Inr t'
          \<and> model t' = model t \<and> optimizer t' = optimizer t
          \<and> losses_train t' = losses_train t \<and> losses_valid t' = losses_valid t
          \<and> metrics_train t' = metrics_train t \<and> metrics_valid t' = metrics_valid t
          \<and> (\<forall>i\<in>set (cfg_metrics su). attrs t' (best_name i) = attrs t (best_name i))
          \<and> start_epoch t' = e + 1"
  obtain fs' where sv: "?save = Inr fs'"
    using save_checkpoint_succeeds [OF assms] by blast
  have any: "?ok (load_checkpoint su t3 fs' ?path)" for t3
    using save_then_load [OF assms, of fs e "(losses_train t, losses_valid t)"
            "(metrics_train t, metrics_valid t)" save_best suffix now t3] sv
    by auto
  have startup: "?ok (init_trainer su mdl opt (Some lg) fs')"
    if resume: "start_from_checkpoint su" and named: "checkpoint_dir su @ checkpoint_name su = ?path"
  proof -
    obtain t3 where "init_trainer su mdl opt (Some lg) fs' = load_checkpoint su t3 fs' ?path"
      using init_trainer_resumes [OF resume, of mdl opt lg fs'] named by auto
    then show ?thesis using any [of t3] by simp
  qed
  show ?thesis
    using sv any [of t2] startup by (intro exI [of _ fs']) blast
qed


theorem checkpoint_round_trip_witness:
  "list_all (\<lambda>i. attrs (example_trainer\<lparr>model := 7, optimizer := 5, losses_train := [1 / 2],
                 attrs := (attrs example_trainer)(''best_f1_micro'' \<mapsto> 3 / 4)\<rparr>) (best_name i) \<noteq> None)
     (cfg_metrics (example_env\<lparr>start_from_checkpoint := True\<rparr>))
   \<and> (\<exists>fs'.
        save_checkpoint (example_env\<lparr>start_from_checkpoint := True\<rparr>)
          (example_trainer\<lparr>model := 7, optimizer := 5, losses_train := [1 / 2],
             attrs := (attrs example_trainer)(''best_f1_micro'' \<mapsto> 3 / 4)\<rparr>)
          Map.empty 3 ([1 / 2], []) (metrics_train example_trainer, metrics_valid example_trainer)
          True (Some ''f1_micro'') (clock example_env 3) = Inr fs'
      \<and> (\<exists>t'. load_checkpoint (example_env\<lparr>start_from_checkpoint := True\<rparr>) example_trainer fs'
                 ''checkpoints/model_best_f1_micro.pt'' = Inr t'
            \<and> model t' = 7 \<and> optimizer t' = 5 \<and> losses_train t' = [1 / 2]
            \<and> attrs t' ''best_f1_micro'' = Some (3 / 4) \<and> start_epoch t' = 4)
      \<and> (\<exists>t'. init_trainer (example_env\<lparr>start_from_checkpoint := True\<rparr>) 0 0 (Some []) fs' = Inr t'
            \<and> model t' = 7 \<and> optimizer t' = 5 \<and> losses_train t' = [1 / 2]
            \<and> attrs t' ''best_f1_micro'' = Some (3 / 4) \<and> start_epoch t' = 4))"
proof -
  let ?su = "example_env\<lparr>start_from_checkpoint := True\<rparr>"
  let ?t = "example_trainer\<lparr>model := 7, optimizer := 5, losses_train := [1 / 2],
             attrs := (attrs example_trainer)(''best_f1_micro'' \<mapsto> 3 / 4)\<rparr>"
  have defined: "\<forall>i\<in>set (cfg_metrics ?su). attrs ?t (best_name i) \<noteq> None"
    by (simp add: example_env_def example_trainer_def best_name_def del: not_None_eq)
  have path: "checkpoint_path (checkpoint_dir ?su) 3 True (Some ''f1_micro'') (clock example_env 3)
              = ''checkpoints/model_best_f1_micro.pt''"
    by (simp add: checkpoint_path_def example_env_def)
  have named: "checkpoint_dir ?su @ checkpoint_name ?su = ''checkpoints/model_best_f1_micro.pt''"
    by (simp add: example_env_def)
  have mem: "''f1_micro'' \<in> set (cfg_metrics ?su)"
    by (simp add: example_env_def)
  have flds: "model ?t = 7" "optimizer ?t = 5" "losses_train ?t = [1 / 2]"
    "losses_valid ?t = []" "metrics_train ?t = metrics_train example_trainer"
    "metrics_valid ?t = metrics_valid example_trainer"
    "attrs ?t (best_name ''f1_micro'') = Some (3 / 4)" "start_from_checkpoint ?su"
    by (simp_all add: example_trainer_def best_name_def)
  let ?path = "checkpoint_path (checkpoint_dir ?su) 3 True (Some ''f1_micro'') (clock example_env 3)"
  from checkpoint_round_trip [OF defined, of Map.empty 3 True "Some ''f1_micro''"
      "clock example_env 3" example_trainer 0 0 "[]"]
  obtain fs' where sv: "save_checkpoint ?su ?t Map.empty 3 (losses_train ?t, losses_valid ?t)
        (metrics_train ?t, metrics_valid ?t) True (Some ''f1_micro'') (clock example_env 3) = Inr fs'"
    and ld: "\<exists>t'. load_checkpoint ?su example_trainer fs' ?path = Inr t'
          \<and> model t' = model ?t \<and> optimizer t' = optimizer ?t
          \<and> losses_train t' = losses_train ?t \<and> losses_valid t' = losses_valid ?t
          \<and> metrics_train t' = metrics_train ?t \<and> metrics_valid t' = metrics_valid ?t
          \<and> (\<forall>i\<in>set (cfg_metrics ?su). attrs t' (best_name i) = attrs ?t (best_name i))
          \<and> start_epoch t' = 3 + 1"
    and st: "start_from_checkpoint ?su \<and> checkpoint_dir ?su @ checkpoint_name ?su = ?path
       \<longrightarrow> (\<exists>t'. init_trainer ?su 0 0 (Some []) fs' = Inr t'
          \<and> model t' = model ?t \<and> optimizer t' = optimizer ?t
          \<and> losses_train t' = losses_train ?t \<and> losses_valid t' = losses_valid ?t
          \<and> metrics_train t' = metrics_train ?t \<and> metrics_valid t' = metrics_valid ?t
          \<and> (\<forall>i\<in>set (cfg_metrics ?su). attrs t' (best_name i) = attrs ?t (best_name i))
          \<and> start_epoch t' = 3 + 1)"
    by blast
  from ld obtain t1 where l1: "load_checkpoint ?su example_trainer fs' ?path = Inr t1"
    and m1: "model t1 = model ?t" "optimizer t1 = optimizer ?t" "losses_train t1 = losses_train ?t"
      "start_epoch t1 = 3 + 1"
    and b1: "\<forall>i\<in>set (cfg_metrics ?su). attrs t1 (best_name i) = attrs ?t (best_name i)"
    by blast
  from st flds(8) named path
  obtain t2 where l2: "init_trainer ?su 0 0 (Some []) fs' = Inr t2"
    and m2: "model t2 = model ?t" "optimizer t2 = optimizer ?t" "losses_train t2 = losses_train ?t"
      "start_epoch t2 = 3 + 1"
    and b2: "\<forall>i\<in>set (cfg_metrics ?su). attrs t2 (best_name i) = attrs ?t (best_name i)"
    by auto
  have a1: "attrs t1 ''best_f1_micro'' = Some (3 / 4)"
    using b1 mem flds(7) by (auto simp: best_name_def)
  have a2: "attrs t2 ''best_f1_micro'' = Some (3 / 4)"
    using b2 mem flds(7) by (auto simp: best_name_def)
  have h: "list_all (\<lambda>i. attrs ?t (best_name i) \<noteq> None) (cfg_metrics ?su)"
    using defined by (simp only: list_all_iff)
  have first: "\<exists>t'. load_checkpoint ?su example_trainer fs' ''checkpoints/model_best_f1_micro.pt'' = Inr t'
            \<and> model t' = 7 \<and> optimizer t' = 5 \<and> losses_train t' = [1 / 2]
            \<and> attrs t' ''best_f1_micro'' = Some (3 / 4) \<and> start_epoch t' = 4"
    using l1 m1 a1 unfolding path flds by (intro exI [of _ t1]) simp
  have second: "\<exists>t'. init_trainer ?su 0 0 (Some []) fs' = Inr t'
            \<and> model t' = 7 \<and> optimizer t' = 5 \<and> losses_train t' = [1 / 2]
            \<and> attrs t' ''best_f1_micro'' = Some (3 / 4) \<and> start_epoch t' = 4"
    using l2 m2 a2 unfolding flds by (intro exI [of _ t2]) simp
  have sv': "save_checkpoint ?su ?t Map.empty 3 ([1 / 2], [])
          (metrics_train example_trainer, metrics_valid example_trainer)
          True (Some ''f1_micro'') (clock example_env 3) = Inr fs'"
    using sv unfolding flds .
  show ?thesis
    using h sv' first second by blast
qed

section \<open>Properties of the epoch passes\<close>

lemma train_batch_Inr:
  assumes "train_batch su b mo = Inr (loss, pred, labels, mo')"
  shows "batch_loss su True (fst mo) b = Inr loss \<and> labels = batch_labels b
       \<and> mo' = optimizer_step su (fst mo) (snd mo) (batch_data b) (batch_labels b)"
  using assms
  by (auto simp: train_batch_def batch_loss_def on_ok_def split: sum.splits)

lemma valid_batch_Inr:
  assumes "valid_batch su m b = Inr (loss, pred, labels)"
  shows "batch_loss su False m b = Inr loss \<and> labels = batch_labels b"
  using assms
  by (auto simp: valid_batch_def batch_loss_def on_ok_def split: sum.splits)

lemma train_batches_Inr:
  assumes "train_batches su bs (rl, lg, tg, mo) = Inr (rl', lg', tg', mo')"
  shows "\<exists>losses. length losses = length bs
      \<and> map2 (\<lambda>b s. batch_loss su True (fst s) b) bs (model_states su bs mo) = map Inr losses
      \<and> rl' = rl + sum_list losses
      \<and> tg' = tg @ map batch_labels bs
      \<and> length lg' = length lg + length bs"
  using assms
proof (induction bs arbitrary: rl lg tg mo)
  case Nil
  then show ?case by simp
next
  case (Cons b bs)
  from Cons.prems obtain loss pred labels mo1 where
    step: "train_batch su b mo = Inr (loss, pred, labels, mo1)"
    and rest: "train_batches su bs (rl + loss, lg @ [pred], tg @ [labels], mo1) = Inr (rl', lg', tg', mo')"
    by (auto split: sum.splits)
  note one = train_batch_Inr [OF step]
  from Cons.IH [OF rest] obtain losses where
    len: "length losses = length bs"
    and each: "map2 (\<lambda>b s. batch_loss su True (fst s) b) bs (model_states su bs mo1) = map Inr losses"
    and total: "rl' = rl + loss + sum_list losses"
    and tgs: "tg' = (tg @ [labels]) @ map batch_labels bs"
    and lgs: "length lg' = length (lg @ [pred]) + length bs"
    by blast
  show ?case
    using one len each total tgs lgs
    by (intro exI [of _ "loss # losses"]) simp
qed

lemma valid_batches_Inr:
  assumes "valid_batches su m bs (rl, lg, tg) = Inr (rl', lg', tg')"
  shows "\<exists>losses. length losses = length bs
      \<and> map (batch_loss su False m) bs = map Inr losses
      \<and> rl' = rl + sum_list losses
      \<and> tg' = tg @ map batch_labels bs
      \<and> length lg' = length lg + length bs"
  using assms
proof (induction bs arbitrary: rl lg tg)
  case Nil
  then show ?case by simp
next
  case (Cons b bs)
  from Cons.prems obtain loss pred labels where
    step: "valid_batch su m b = Inr (loss, pred, labels)"
    and rest: "valid_batches su m bs (rl + loss, lg @ [pred], tg @ [labels]) = Inr (rl', lg', tg')"
    by (auto split: sum.splits)
  note one = valid_batch_Inr [OF step]
  from Cons.IH [OF rest] obtain losses where
    len: "length losses = length bs"
    and each: "map (batch_loss su False m) bs = map Inr losses"
    and total: "rl' = rl + loss + sum_list losses"
    and tgs: "tg' = (tg @ [labels]) @ map batch_labels bs"
    and lgs: "length lg' = length (lg @ [pred]) + length bs"
    by blast
  show ?case
    using one len each total tgs lgs
    by (intro exI [of _ "loss # losses"]) simp
qed

lemma train_epoch_Inr:
  assumes "train_epoch su batches t = Inr (r, t')"
  shows "batch_size su \<noteq> 0
      \<and> (\<exists>losses. length losses = length batches
            \<and> map2 (\<lambda>b s. batch_loss su True (fst s) b) batches
                 (model_states su batches (model t, optimizer t)) = map Inr losses
            \<and> er_loss r = sum_list losses / of_int (batch_size su))
      \<and> (\<exists>logits. length logits = length batches
            \<and> call3 (metric_fn su) logits (map batch_labels batches) (num_labels su) = Inr (er_metrics r))
      \<and> (\<exists>m opt. t' = t\<lparr>model := m, optimizer := opt\<rparr>)"
proof -
  from assms obtain rl lg tg m opt where
    loop: "train_batches su batches (0, [], [], model t, optimizer t) = Inr (rl, lg, tg, m, opt)"
    by (auto simp: train_epoch_def on_ok_def split: sum.splits)
  from assms loop have nz: "batch_size su \<noteq> 0"
    by (auto simp: train_epoch_def on_ok_def Let_def split: if_splits)
  from assms loop nz obtain mv where
    call: "call3 (metric_fn su) lg tg (num_labels su) = Inr mv"
    and r: "r = \<lparr>er_loss = rl / of_int (batch_size su), er_metrics = mv\<rparr>"
    and t': "t' = t\<lparr>model := m, optimizer := (case lr_scheduler su of None \<Rightarrow> opt | Some step \<Rightarrow> step opt)\<rparr>"
    by (auto simp: train_epoch_def on_ok_def Let_def split: sum.splits)
  from train_batches_Inr [OF loop] obtain losses where
    len: "length losses = length batches"
    and each: "map2 (\<lambda>b s. batch_loss su True (fst s) b) batches
                 (model_states su batches (model t, optimizer t)) = map Inr losses"
    and total: "rl = 0 + sum_list losses"
    and tgs: "tg = [] @ map batch_labels batches"
    and lgs: "length lg = length ([]::int list list) + length batches"
    by blast
  have a: "\<exists>losses. length losses = length batches
            \<and> map2 (\<lambda>b s. batch_loss su True (fst s) b) batches
                 (model_states su batches (model t, optimizer t)) = map Inr losses
            \<and> er_loss r = sum_list losses / of_int (batch_size su)"
    using len each total r by (intro exI [of _ losses]) simp
  have b: "\<exists>logits. length logits = length batches
            \<and> call3 (metric_fn su) logits (map batch_labels batches) (num_labels su) = Inr (er_metrics r)"
    using call tgs lgs r by (intro exI [of _ lg]) simp
  have c: "\<exists>m opt. t' = t\<lparr>model := m, optimizer := opt\<rparr>"
    using t' by blast
  show ?thesis using nz a b c by blast
qed

lemma validate_epoch_Inr:
  assumes "validate_epoch su batches t = Inr r"
  shows "batch_size su \<noteq> 0
      \<and> (\<exists>losses. length losses = length batches
            \<and> map (batch_loss su False (model t)) batches = map Inr losses
            \<and> er_loss r = sum_list losses / of_int (batch_size su))
      \<and> (\<exists>logits. length logits = length batches
            \<and> call3 (metric_fn su) logits (map batch_labels batches) (num_labels su) = Inr (er_metrics r))"
proof -
  from assms obtain rl lg tg where
    loop: "valid_batches su (model t) batches (0, [], []) = Inr (rl, lg, tg)"
    by (auto simp: validate_epoch_def on_ok_def split: sum.splits)
  from assms loop have nz: "batch_size su \<noteq> 0"
    by (auto simp: validate_epoch_def on_ok_def split: if_splits)
  from assms loop nz obtain mv where
    call: "call3 (metric_fn su) lg tg (num_labels su) = Inr mv"
    and r: "r = \<lparr>er_loss = rl / of_int (batch_size su), er_metrics = mv\<rparr>"
    by (auto simp: validate_epoch_def on_ok_def split: sum.splits)
  from valid_batches_Inr [OF loop] obtain losses where
    len: "length losses = length batches"
    and each: "map (batch_loss su False (model t)) batches = map Inr losses"
    and total: "rl = 0 + sum_list losses"
    and tgs: "tg = [] @ map batch_labels batches"
    and lgs: "length lg = length ([]::int list list) + length batches"
    by blast
  have a: "\<exists>losses. length losses = length batches
            \<and> map (batch_loss su False (model t)) batches = map Inr losses
            \<and> er_loss r = sum_list losses / of_int (batch_size su)"
    using len each total r by (intro exI [of _ losses]) simp
  have b: "\<exists>logits. length logits = length batches
            \<and> call3 (metric_fn su) logits (map batch_labels batches) (num_labels su) = Inr (er_metrics r)"
    using call tgs lgs r by (intro exI [of _ lg]) simp
  show ?thesis using nz a b by blast
qed


section \<open>Structure of one iteration of the epoch loop\<close>

lemma for_each_preserves:
  assumes step: "\<And>x s s'. body x s = Inr s' \<Longrightarrow> P s \<Longrightarrow> P s'"
    and run: "for_each body xs s = Inr s'" and init: "P s"
  shows "P s'"
  using run init
proof (induction xs arbitrary: s)
  case Nil
  then show ?case by simp
next
  case (Cons x xs)
  from Cons.prems(1) obtain s1 where one: "body x s = Inr s1" and rest: "for_each body xs s1 = Inr s'"
    by (auto split: sum.splits)
  show ?case
    using Cons.IH [OF rest] step [OF one Cons.prems(2)] by simp
qed

lemma logger_info_Inr:
  assumes "logger_info tag t = Inr t'"
  shows "\<exists>lg. logger t = Some lg \<and> t' = t\<lparr>logger := Some (lg @ [tag])\<rparr>"
  using assms by (auto simp: logger_info_def split: option.splits)

lemma logger_info_Some: "logger t = Some lg \<Longrightarrow> logger_info tag t = Inr (t\<lparr>logger := Some (lg @ [tag])\<rparr>)"
  by (simp add: logger_info_def)

lemma train_epoch_logger:
  "train_epoch su bs (t\<lparr>logger := lg\<rparr>) = Inr (r, t1)
   \<Longrightarrow> train_epoch su bs t = Inr (r, t1\<lparr>logger := logger t\<rparr>)"
  by (auto simp: train_epoch_def on_ok_def Let_def split: sum.splits if_splits)

lemma validate_epoch_model:
  "model t = model t' \<Longrightarrow> validate_epoch su bs t = validate_epoch su bs t'"
  by (simp add: validate_epoch_def)

lemma train_metric_step_frame:
  assumes "train_metric_step kv t = Inr t'"
  shows "model t' = model t \<and> optimizer t' = optimizer t \<and> attrs t' = attrs t
       \<and> losses_train t' = losses_train t \<and> losses_valid t' = losses_valid t
       \<and> metrics_valid t' = metrics_valid t \<and> start_epoch t' = start_epoch t"
  using assms
  by (auto simp: train_metric_step_def dict_append_def on_ok_def logger_info_def
           split: option.splits sum.splits)

lemma train_metrics_frame:
  assumes run: "for_each train_metric_step items t = Inr t'"
  shows "model t' = model t \<and> optimizer t' = optimizer t \<and> attrs t' = attrs t
       \<and> losses_train t' = losses_train t \<and> losses_valid t' = losses_valid t
       \<and> metrics_valid t' = metrics_valid t \<and> start_epoch t' = start_epoch t"
proof (rule for_each_preserves [where body = train_metric_step and xs = items and s = t
        and P = "\<lambda>u. model u = model t \<and> optimizer u = optimizer t \<and> attrs u = attrs t
       \<and> losses_train u = losses_train t \<and> losses_valid u = losses_valid t
       \<and> metrics_valid u = metrics_valid t \<and> start_epoch u = start_epoch t"])
  fix x s s'
  assume one: "train_metric_step x s = Inr s'"
    and inv: "model s = model t \<and> optimizer s = optimizer t \<and> attrs s = attrs t
       \<and> losses_train s = losses_train t \<and> losses_valid s = losses_valid t
       \<and> metrics_valid s = metrics_valid t \<and> start_epoch s = start_epoch t"
  show "model s' = model t \<and> optimizer s' = optimizer t \<and> attrs s' = attrs t
       \<and> losses_train s' = losses_train t \<and> losses_valid s' = losses_valid t
       \<and> metrics_valid s' = metrics_valid t \<and> start_epoch s' = start_epoch t"
    using train_metric_step_frame [OF one] inv by simp
next
  show "for_each train_metric_step items t = Inr t'" by (rule run)
next
  show "model t = model t \<and> optimizer t = optimizer t \<and> attrs t = attrs t
       \<and> losses_train t = losses_train t \<and> losses_valid t = losses_valid t
       \<and> metrics_valid t = metrics_valid t \<and> start_epoch t = start_epoch t"
    by simp
qed

lemma valid_metric_step_frame:
  assumes "valid_metric_step su epoch kv w = Inr w'"
  shows "model (fst w') = model (fst w) \<and> optimizer (fst w') = optimizer (fst w)
       \<and> losses_train (fst w') = losses_train (fst w) \<and> losses_valid (fst w') = losses_valid (fst w)
       \<and> metrics_train (fst w') = metrics_train (fst w) \<and> start_epoch (fst w') = start_epoch (fst w)"
  using assms
  by (auto simp: valid_metric_step_def dict_append_def on_ok_def logger_info_def getattr_def
                 setattr_def
           split: option.splits sum.splits if_splits)

lemma valid_metrics_frame:
  assumes run: "for_each (valid_metric_step su epoch) items w = Inr w'"
  shows "model (fst w') = model (fst w) \<and> optimizer (fst w') = optimizer (fst w)
       \<and> losses_train (fst w') = losses_train (fst w) \<and> losses_valid (fst w') = losses_valid (fst w)
       \<and> metrics_train (fst w') = metrics_train (fst w) \<and> start_epoch (fst w') = start_epoch (fst w)"
proof (rule for_each_preserves [where body = "valid_metric_step su epoch" and xs = items and s = w
        and P = "\<lambda>u. model (fst u) = model (fst w) \<and> optimizer (fst u) = optimizer (fst w)
       \<and> losses_train (fst u) = losses_train (fst w) \<and> losses_valid (fst u) = losses_valid (fst w)
       \<and> metrics_train (fst u) = metrics_train (fst w) \<and> start_epoch (fst u) = start_epoch (fst w)"])
  fix x s s'
  assume one: "valid_metric_step su epoch x s = Inr s'"
    and inv: "model (fst s) = model (fst w) \<and> optimizer (fst s) = optimizer (fst w)
       \<and> losses_train (fst s) = losses_train (fst w) \<and> losses_valid (fst s) = losses_valid (fst w)
       \<and> metrics_train (fst s) = metrics_train (fst w) \<and> start_epoch (fst s) = start_epoch (fst w)"
  show "model (fst s') = model (fst w) \<and> optimizer (fst s') = optimizer (fst w)
       \<and> losses_train (fst s') = losses_train (fst w) \<and> losses_valid (fst s') = losses_valid (fst w)
       \<and> metrics_train (fst s') = metrics_train (fst w) \<and> start_epoch (fst s') = start_epoch (fst w)"
    using valid_metric_step_frame [OF one] inv by simp
next
  show "for_each (valid_metric_step su epoch) items w = Inr w'" by (rule run)
next
  show "model (fst w) = model (fst w) \<and> optimizer (fst w) = optimizer (fst w)
       \<and> losses_train (fst w) = losses_train (fst w) \<and> losses_valid (fst w) = losses_valid (fst w)
       \<and> metrics_train (fst w) = metrics_train (fst w) \<and> start_epoch (fst w) = start_epoch (fst w)"
    by simp
qed

lemma periodic_save_frame:
  assumes "periodic_save su epoch w = Inr w'"
  shows "model (fst w') = model (fst w) \<and> optimizer (fst w') = optimizer (fst w)
       \<and> attrs (fst w') = attrs (fst w)
       \<and> losses_train (fst w') = losses_train (fst w) \<and> losses_valid (fst w') = losses_valid (fst w)
       \<and> metrics_train (fst w') = metrics_train (fst w)
       \<and> metrics_valid (fst w') = metrics_valid (fst w)
       \<and> start_epoch (fst w') = start_epoch (fst w)"
  using assms
  by (auto simp: periodic_save_def on_ok_def logger_info_def split: if_splits sum.splits option.splits)

lemma train_iteration_Inr:
  assumes "train_iteration su epoch w = Inr w'"
  shows "\<exists>t0 r t1 t2 titems t3 v t4 vitems w5 w6.
      logger_info ''EPOCH'' (fst w) = Inr t0
    \<and> train_epoch su (train_dataloader su epoch) t0 = Inr (r, t1)
    \<and> logger_info ''LOSS'' (t1\<lparr>losses_train := losses_train t1 @ [er_loss r]\<rparr>) = Inr t2
    \<and> metric_items (er_metrics r) = Inr titems
    \<and> for_each train_metric_step titems t2 = Inr t3
    \<and> validate_epoch su (valid_dataloader su epoch) t3 = Inr v
    \<and> logger_info ''LOSS'' (t3\<lparr>losses_valid := losses_valid t3 @ [er_loss v]\<rparr>) = Inr t4
    \<and> metric_items (er_metrics v) = Inr vitems
    \<and> for_each (valid_metric_step su epoch) vitems (t4, snd w) = Inr w5
    \<and> periodic_save su epoch w5 = Inr w6
    \<and> logger_info ''TRAINER'' (fst w6) = Inr (fst w')
    \<and> snd w' = snd w6"
  using assms
  unfolding train_iteration_def on_ok_def
  by (auto split: sum.splits prod.splits)


lemma train_iteration_losses:
  assumes "train_iteration su epoch (t, fs) = Inr (t', fs')"
  shows "\<exists>r t1 v. train_epoch su (train_dataloader su epoch) t = Inr (r, t1)
         \<and> validate_epoch su (valid_dataloader su epoch) t' = Inr v
         \<and> model t' = model t1 \<and> optimizer t' = optimizer t1
         \<and> losses_train t' = losses_train t @ [er_loss r]
         \<and> losses_valid t' = losses_valid t @ [er_loss v]"
proof -
  from train_iteration_Inr [OF assms]
  obtain t0 r t1 t2 titems t3 v t4 vitems w5 w6 where
    s0: "logger_info ''EPOCH'' t = Inr t0"
    and s1: "train_epoch su (train_dataloader su epoch) t0 = Inr (r, t1)"
    and s2: "logger_info ''LOSS'' (t1\<lparr>losses_train := losses_train t1 @ [er_loss r]\<rparr>) = Inr t2"
    and s3: "for_each train_metric_step titems t2 = Inr t3"
    and s4: "validate_epoch su (valid_dataloader su epoch) t3 = Inr v"
    and s5: "logger_info ''LOSS'' (t3\<lparr>losses_valid := losses_valid t3 @ [er_loss v]\<rparr>) = Inr t4"
    and s6: "for_each (valid_metric_step su epoch) vitems (t4, fs) = Inr w5"
    and s7: "periodic_save su epoch w5 = Inr w6"
    and s8: "logger_info ''TRAINER'' (fst w6) = Inr t'"
    by auto
  from logger_info_Inr [OF s0] obtain lg0 where t0: "t0 = t\<lparr>logger := Some (lg0 @ [''EPOCH''])\<rparr>"
    by blast
  have e1: "train_epoch su (train_dataloader su epoch) t = Inr (r, t1\<lparr>logger := logger t\<rparr>)"
    using s1 unfolding t0 by (rule train_epoch_logger)
  from train_epoch_Inr [OF s1] obtain m opt where t1: "t1 = t0\<lparr>model := m, optimizer := opt\<rparr>"
    by blast
  have f1: "losses_train t1 = losses_train t" "losses_valid t1 = losses_valid t"
    by (simp_all add: t1 t0)
  from logger_info_Inr [OF s2] obtain lg2 where
    t2: "t2 = t1\<lparr>losses_train := losses_train t1 @ [er_loss r], logger := Some (lg2 @ [''LOSS''])\<rparr>"
    by auto
  have f2: "losses_train t2 = losses_train t @ [er_loss r]" "losses_valid t2 = losses_valid t"
    "model t2 = model t1" "optimizer t2 = optimizer t1"
    by (simp_all add: t2 f1)
  note f3 = train_metrics_frame [OF s3]
  from logger_info_Inr [OF s5] obtain lg4 where
    t4: "t4 = t3\<lparr>losses_valid := losses_valid t3 @ [er_loss v], logger := Some (lg4 @ [''LOSS''])\<rparr>"
    by auto
  have f4: "losses_train t4 = losses_train t @ [er_loss r]"
    "losses_valid t4 = losses_valid t @ [er_loss v]"
    "model t4 = model t1" "optimizer t4 = optimizer t1" "model t3 = model t1"
    using f3 f2 by (simp_all add: t4)
  note f5 = valid_metrics_frame [OF s6]
  note f6 = periodic_save_frame [OF s7]
  from logger_info_Inr [OF s8] obtain lg8 where
    t': "t' = (fst w6)\<lparr>logger := Some (lg8 @ [''TRAINER''])\<rparr>"
    by blast
  have f8: "losses_train t' = losses_train t @ [er_loss r]"
    "losses_valid t' = losses_valid t @ [er_loss v]"
    "model t' = model t1" "optimizer t' = optimizer t1"
    using f4 f5 f6 by (simp_all add: t')
  have e2: "validate_epoch su (valid_dataloader su epoch) t' = Inr v"
    using s4 validate_epoch_model [of t' t3 su "valid_dataloader su epoch"] f8(3) f4(5) by simp
  show ?thesis
    using e1 e2 f8 by (intro exI [of _ r] exI [of _ "t1\<lparr>logger := logger t\<rparr>"] exI [of _ v]) simp
qed

text \<open>
  C10. The loss a training pass returns is the sum of the losses of its batches, each
  computed on the model state that batch is run on, divided by the configured batch size;
  the loss of a validation pass is the sum of the losses of its batches under the current
  model, divided by the configured batch size. Neither divides by the number of batches.
  One iteration of the epoch loop appends exactly these two values to the training and
  validation loss histories.
\<close>

theorem epoch_loss_divided_by_batch_size:
  "(train_epoch su batches t = Inr (r, t1) \<longrightarrow>
      batch_size su \<noteq> 0
      \<and> (\<exists>losses. length losses = length batches
            \<and> map2 (\<lambda>b s. batch_loss su True (fst s) b) batches
                 (model_states su batches (model t, optimizer t)) = map Inr losses
            \<and> er_loss r = sum_list losses / of_int (batch_size su)))
   \<and> (validate_epoch su batches t = Inr v \<longrightarrow>
      batch_size su \<noteq> 0
      \<and> (\<exists>losses. length losses = length batches
            \<and> map (batch_loss su False (model t)) batches = map Inr losses
            \<and> er_loss v = sum_list losses / of_int (batch_size su)))
   \<and> (train_iteration su epoch (t, fs) = Inr (t', fs') \<longrightarrow>
      (\<exists>r1 t2 v1. train_epoch su (train_dataloader su epoch) t = Inr (r1, t2)
         \<and> validate_epoch su (valid_dataloader su epoch) t' = Inr v1
         \<and> model t' = model t2
         \<and> losses_train t' = losses_train t @ [er_loss r1]
         \<and> losses_valid t' = losses_valid t @ [er_loss v1]))"
proof (intro conjI impI)
  assume a: "train_epoch su batches t = Inr (r, t1)"
  show "batch_size su \<noteq> 0" using train_epoch_Inr [OF a] by blast
  show "\<exists>losses. length losses = length batches
            \<and> map2 (\<lambda>b s. batch_loss su True (fst s) b) batches
                 (model_states su batches (model t, optimizer t)) = map Inr losses
            \<and> er_loss r = sum_list losses / of_int (batch_size su)"
    using train_epoch_Inr [OF a] by blast
next
  assume a: "validate_epoch su batches t = Inr v"
  show "batch_size su \<noteq> 0" using validate_epoch_Inr [OF a] by blast
  show "\<exists>losses. length losses = length batches
            \<and> map (batch_loss su False (model t)) batches = map Inr losses
            \<and> er_loss v = sum_list losses / of_int (batch_size su)"
    using validate_epoch_Inr [OF a] by blast
next
  assume a: "train_iteration su epoch (t, fs) = Inr (t', fs')"
  show "\<exists>r1 t2 v1. train_epoch su (train_dataloader su epoch) t = Inr (r1, t2)
         \<and> validate_epoch su (valid_dataloader su epoch) t' = Inr v1
         \<and> model t' = model t2
         \<and> losses_train t' = losses_train t @ [er_loss r1]
         \<and> losses_valid t' = losses_valid t @ [er_loss v1]"
    using train_iteration_losses [OF a] by blast
qed


lemmas eval_defs = example_env_def example_trainer_def example_metric_def
  train_epoch_def validate_epoch_def train_batch_def valid_batch_def on_ok_def
  get_token_logits_def nonzero_eq_def argmax1_def argmax_row_def call3_def
  Let_def upt_rec

lemmas iter_defs = train_iteration_def logger_info_def metric_items_def train_metric_step_def
  valid_metric_step_def dict_append_def getattr_def setattr_def best_name_def
  save_checkpoint_def best_metrics_dict_def periodic_save_def

lemma example_train_epoch:
  "train_epoch example_env
     [\<lparr>batch_data = \<lparr>t_rows = 1, t_cols = 2, t_cells = [[101, 7]]\<rparr>, batch_labels = [1]\<rparr>,
      \<lparr>batch_data = \<lparr>t_rows = 1, t_cols = 2, t_cells = [[101, 8]]\<rparr>, batch_labels = [0]\<rparr>,
      \<lparr>batch_data = \<lparr>t_rows = 1, t_cols = 2, t_cells = [[101, 9]]\<rparr>, batch_labels = [1]\<rparr>]
     example_trainer
   = Inr (\<lparr>er_loss = 3 / 2,
            er_metrics = MetricDict [(''f1_micro'', 2 / 3), (''f1_macro'', 1 / 2), (''f1_weighted'', 1 / 4)]\<rparr>,
          example_trainer\<lparr>model := 3, optimizer := 3\<rparr>)"
  by (simp add: eval_defs)

lemma example_validate_epoch:
  "validate_epoch example_env
     [\<lparr>batch_data = \<lparr>t_rows = 1, t_cols = 2, t_cells = [[101, 7]]\<rparr>, batch_labels = [1]\<rparr>,
      \<lparr>batch_data = \<lparr>t_rows = 1, t_cols = 2, t_cells = [[101, 8]]\<rparr>, batch_labels = [0]\<rparr>,
      \<lparr>batch_data = \<lparr>t_rows = 1, t_cols = 2, t_cells = [[101, 9]]\<rparr>, batch_labels = [1]\<rparr>]
     example_trainer
   = Inr \<lparr>er_loss = 3 / 2,
            er_metrics = MetricDict [(''f1_micro'', 2 / 3), (''f1_macro'', 1 / 2), (''f1_weighted'', 1 / 4)]\<rparr>"
  by (simp add: eval_defs)

lemma example_train_iteration:
  "\<exists>t' fs'. train_iteration example_env 0 (example_trainer, Map.empty) = Inr (t', fs')
    \<and> losses_train t' = [1 / 2] \<and> losses_valid t' = [1 / 2]
    \<and> attrs t' ''best_f1_micro'' = Some 0 \<and> attrs t' ''best_f1_macro'' = Some (1 / 2)
    \<and> model t' = 1"
  by (simp add: eval_defs iter_defs)

theorem epoch_loss_divided_by_batch_size_witness:
  "train_epoch example_env
     [\<lparr>batch_data = \<lparr>t_rows = 1, t_cols = 2, t_cells = [[101, 7]]\<rparr>, batch_labels = [1]\<rparr>,
      \<lparr>batch_data = \<lparr>t_rows = 1, t_cols = 2, t_cells = [[101, 8]]\<rparr>, batch_labels = [0]\<rparr>,
      \<lparr>batch_data = \<lparr>t_rows = 1, t_cols = 2, t_cells = [[101, 9]]\<rparr>, batch_labels = [1]\<rparr>]
     example_trainer
   = Inr (\<lparr>er_loss = 3 / 2,
            er_metrics = MetricDict [(''f1_micro'', 2 / 3), (''f1_macro'', 1 / 2), (''f1_weighted'', 1 / 4)]\<rparr>,
          example_trainer\<lparr>model := 3, optimizer := 3\<rparr>)
   \<and> validate_epoch example_env
     [\<lparr>batch_data = \<lparr>t_rows = 1, t_cols = 2, t_cells = [[101, 7]]\<rparr>, batch_labels = [1]\<rparr>,
      \<lparr>batch_data = \<lparr>t_rows = 1, t_cols = 2, t_cells = [[101, 8]]\<rparr>, batch_labels = [0]\<rparr>,
      \<lparr>batch_data = \<lparr>t_rows = 1, t_cols = 2, t_cells = [[101, 9]]\<rparr>, batch_labels = [1]\<rparr>]
     example_trainer
   = Inr \<lparr>er_loss = 3 / 2,
            er_metrics = MetricDict [(''f1_micro'', 2 / 3), (''f1_macro'', 1 / 2), (''f1_weighted'', 1 / 4)]\<rparr>
   \<and> batch_size example_env = 2
   \<and> (\<exists>losses. length losses = 3
         \<and> map (batch_loss example_env False 0)
              [\<lparr>batch_data = \<lparr>t_rows = 1, t_cols = 2, t_cells = [[101, 7]]\<rparr>, batch_labels = [1]\<rparr>,
               \<lparr>batch_data = \<lparr>t_rows = 1, t_cols = 2, t_cells = [[101, 8]]\<rparr>, batch_labels = [0]\<rparr>,
               \<lparr>batch_data = \<lparr>t_rows = 1, t_cols = 2, t_cells = [[101, 9]]\<rparr>, batch_labels = [1]\<rparr>]
             = map Inr losses
         \<and> (3 / 2 :: real) = sum_list losses / 2)
   \<and> (\<exists>t' fs'. train_iteration example_env 0 (example_trainer, Map.empty) = Inr (t', fs')
         \<and> losses_train t' = [1 / 2] \<and> losses_valid t' = [1 / 2])"
proof -
  let ?bs = "[\<lparr>batch_data = \<lparr>t_rows = 1, t_cols = 2, t_cells = [[101, 7]]\<rparr>, batch_labels = [1]\<rparr>,
      \<lparr>batch_data = \<lparr>t_rows = 1, t_cols = 2, t_cells = [[101, 8]]\<rparr>, batch_labels = [0]\<rparr>,
      \<lparr>batch_data = \<lparr>t_rows = 1, t_cols = 2, t_cells = [[101, 9]]\<rparr>, batch_labels = [1]\<rparr>]"
  let ?v = "\<lparr>er_loss = 3 / 2,
            er_metrics = MetricDict [(''f1_micro'', 2 / 3), (''f1_macro'', 1 / 2), (''f1_weighted'', 1 / 4)]\<rparr>"
  have bsz: "batch_size example_env = 2" and m0: "model example_trainer = 0"
    by (simp_all add: example_env_def example_trainer_def)
  have "validate_epoch example_env ?bs example_trainer = Inr ?v \<longrightarrow>
      batch_size example_env \<noteq> 0
      \<and> (\<exists>losses. length losses = length ?bs
            \<and> map (batch_loss example_env False (model example_trainer)) ?bs = map Inr losses
            \<and> er_loss ?v = sum_list losses / of_int (batch_size example_env))"
    using epoch_loss_divided_by_batch_size [of example_env ?bs example_trainer _ _ ?v] by blast
  then have sums: "\<exists>losses. length losses = 3
         \<and> map (batch_loss example_env False 0) ?bs = map Inr losses
         \<and> (3 / 2 :: real) = sum_list losses / 2"
    using example_validate_epoch by (simp add: bsz m0 numeral_3_eq_3)
  obtain t' fs' where "train_iteration example_env 0 (example_trainer, Map.empty) = Inr (t', fs')"
    "losses_train t' = [1 / 2]" "losses_valid t' = [1 / 2]"
    using example_train_iteration by blast
  then have it: "\<exists>t' fs'. train_iteration example_env 0 (example_trainer, Map.empty) = Inr (t', fs')
         \<and> losses_train t' = [1 / 2] \<and> losses_valid t' = [1 / 2]"
    by blast
  show ?thesis
    using example_train_epoch example_validate_epoch bsz sums it by blast
qed

section \<open>The metric function as the trainer calls it\<close>

lemma call3_two_parameters: "call3 (Callable2 f) logits targets n = Inl TypeError"
  by (simp add: call3_def)

lemma train_epoch_two_parameters:
  "isl (train_epoch (su\<lparr>metric_fn := Callable2 f\<rparr>) batches t)"
  by (auto simp: train_epoch_def on_ok_def call3_def Let_def split: sum.splits)

lemma validate_epoch_two_parameters:
  "isl (validate_epoch (su\<lparr>metric_fn := Callable2 f\<rparr>) batches t)"
  by (auto simp: validate_epoch_def on_ok_def call3_def split: sum.splits)

lemma multiple_f1_score_is_tuple:
  "isl (on_ok (multiple_f1_score f1 output target) metric_items)"
  by (auto simp: multiple_f1_score_def on_ok_def metric_items_def Let_def split: sum.splits)

text \<open>
  C1. With \<^verbatim>\<open>multiple_f1_score\<close> as the metric function, as \<^verbatim>\<open>train.py\<close> passes it, neither
  pass ever returns a metrics record: the trainer calls the metric function with three
  arguments and \<^verbatim>\<open>multiple_f1_score(output, target)\<close> accepts two, so the call raises
  \<^verbatim>\<open>TypeError\<close>. On one batch with a non-zero batch size the exception is exactly that one.
  Called with two arguments the function returns a tuple, which has no \<^verbatim>\<open>keys()\<close>, so its
  values could not be recorded under metric names either.
\<close>

theorem metric_fn_call_raises:
  "isl (train_epoch (su\<lparr>metric_fn := Callable2 (multiple_f1_score f1)\<rparr>) batches t)
   \<and> isl (validate_epoch (su\<lparr>metric_fn := Callable2 (multiple_f1_score f1)\<rparr>) batches t)
   \<and> train_epoch (example_env\<lparr>metric_fn := Callable2 (multiple_f1_score f1)\<rparr>)
        [\<lparr>batch_data = \<lparr>t_rows = 1, t_cols = 2, t_cells = [[101, 7]]\<rparr>, batch_labels = [1]\<rparr>]
        example_trainer = Inl TypeError
   \<and> validate_epoch (example_env\<lparr>metric_fn := Callable2 (multiple_f1_score f1)\<rparr>)
        [\<lparr>batch_data = \<lparr>t_rows = 1, t_cols = 2, t_cells = [[101, 7]]\<rparr>, batch_labels = [1]\<rparr>]
        example_trainer = Inl TypeError
   \<and> isl (on_ok (multiple_f1_score f1 output target) metric_items)"
proof (intro conjI)
  show "isl (train_epoch (su\<lparr>metric_fn := Callable2 (multiple_f1_score f1)\<rparr>) batches t)"
    by (rule train_epoch_two_parameters)
  show "isl (validate_epoch (su\<lparr>metric_fn := Callable2 (multiple_f1_score f1)\<rparr>) batches t)"
    by (rule validate_epoch_two_parameters)
  show "train_epoch (example_env\<lparr>metric_fn := Callable2 (multiple_f1_score f1)\<rparr>)
        [\<lparr>batch_data = \<lparr>t_rows = 1, t_cols = 2, t_cells = [[101, 7]]\<rparr>, batch_labels = [1]\<rparr>]
        example_trainer = Inl TypeError"
    by (simp add: eval_defs)
  show "validate_epoch (example_env\<lparr>metric_fn := Callable2 (multiple_f1_score f1)\<rparr>)
        [\<lparr>batch_data = \<lparr>t_rows = 1, t_cols = 2, t_cells = [[101, 7]]\<rparr>, batch_labels = [1]\<rparr>]
        example_trainer = Inl TypeError"
    by (simp add: eval_defs)
  show "isl (on_ok (multiple_f1_score f1 output target) metric_items)"
    by (rule multiple_f1_score_is_tuple)
qed

section \<open>Tracking the best validation metrics\<close>


lemma best_path_inj:
  "(dir @ ''model_best_'' @ m @ ''.pt'' = dir @ ''model_best_'' @ m' @ ''.pt'') \<longleftrightarrow> m = m'"
  by simp

lemma periodic_path_not_best:
  "dir @ ''model_epoch_'' @ x \<noteq> dir @ ''model_best_'' @ y"
  by simp













section \<open>The periodic checkpoint\<close>













end
